theory Spec2Isabelle
  imports Complex_Main "HOL-Library.Sublist"
begin

section \<open>Labs canvas: overlays, drag interaction and the grain stage\<close>

text \<open>
  JavaScript numbers are modelled as the real numbers they denote. The drag handler
  computes every position directly from the values captured at pointer-down, so no
  rounding accumulates over a sequence of moves. The one place where IEEE arithmetic
  leaves the reals, a division by a bounding box of width or height zero, is a result
  of its own (\<open>NonFinite\<close>).
\<close>

record TextOverlay =
  ov_id :: string
  ov_text :: string
  ov_x :: real
  ov_y :: real
  ov_size :: real
  ov_color :: string
  ov_font :: string
  ov_shadow :: bool
  ov_bg :: string
  ov_letterSpacing :: real

record Filters =
  brightness :: real
  contrast :: real
  saturation :: real
  sepia :: real
  grayscale :: real
  blur :: real
  hue :: real
  vignette :: real
  grain :: real

record Transform =
  tr_zoom :: real
  tr_x :: real
  tr_y :: real
  tr_rotation :: real

record LabsState =
  filters :: Filters
  overlays :: "TextOverlay list"
  transform :: "Transform option"

datatype DragMode = DragNone | DragMove | DragResize

record Point =
  pt_x :: real
  pt_y :: real

record DOMRect =
  rect_width :: real
  rect_height :: real

record PointerEvent =
  clientX :: real
  clientY :: real

text \<open>The component state of \<open>LabsCanvas\<close> that the pointer handlers read.\<close>

record DragState =
  dragMode :: DragMode
  dragStart :: Point
  initialOverlayState :: "TextOverlay option"

text \<open>
  What one call of \<open>handlePointerMove\<close> does: it returns without calling
  \<open>onChange\<close> (\<open>NoChange\<close>), or it calls \<open>onChange\<close> with a new state
  (\<open>Changed\<close>).
\<close>

datatype MoveResult = NoChange | NonFinite | Changed LabsState

definition handlePointerMove ::
  "DragState \<Rightarrow> DOMRect option \<Rightarrow> bool \<Rightarrow> LabsState \<Rightarrow> PointerEvent \<Rightarrow> MoveResult" where
  "handlePointerMove d canvas hasOnChange state e =
     (case (initialOverlayState d, canvas) of
        (Some init, Some rect) \<Rightarrow>
          if dragMode d = DragNone \<or> \<not> hasOnChange then NoChange
          else
            let deltaX = clientX e - pt_x (dragStart d);
                deltaY = clientY e - pt_y (dragStart d)
            in if dragMode d = DragMove then
                 (if rect_width rect = 0 \<or> rect_height rect = 0 then NonFinite
                  else
                    let deltaPctX = (deltaX / rect_width rect) * 100;
                        deltaPctY = (deltaY / rect_height rect) * 100;
                        newX = max 0 (min 100 (ov_x init + deltaPctX));
                        newY = max 0 (min 100 (ov_y init + deltaPctY));
                        updatedOverlays =
                          map (\<lambda>ov. if ov_id ov = ov_id init then ov\<lparr>ov_x := newX, ov_y := newY\<rparr> else ov)
                            (overlays state)
                    in Changed (state\<lparr>overlays := updatedOverlays\<rparr>))
               else
                 let scaleDelta = (deltaX + deltaY) / 2;
                     newSize = max 10 (min 300 (ov_size init + scaleDelta * 0.5));
                     updatedOverlays =
                       map (\<lambda>ov. if ov_id ov = ov_id init then ov\<lparr>ov_size := newSize\<rparr> else ov)
                         (overlays state)
                 in Changed (state\<lparr>overlays := updatedOverlays\<rparr>)
      | _ \<Rightarrow> NoChange)"

text \<open>
  The parent passes \<open>setLabsState\<close> as \<open>onChange\<close>: a sequence of pointer-move
  events replaces the state each time \<open>onChange\<close> is called.
\<close>

fun pointerMoves ::
  "DragState \<Rightarrow> DOMRect option \<Rightarrow> bool \<Rightarrow> LabsState \<Rightarrow> PointerEvent list \<Rightarrow> LabsState" where
  "pointerMoves d canvas hasOnChange state [] = state"
| "pointerMoves d canvas hasOnChange state (e # es) =
     (case handlePointerMove d canvas hasOnChange state e of
        Changed state' \<Rightarrow> pointerMoves d canvas hasOnChange state' es
      | _ \<Rightarrow> pointerMoves d canvas hasOnChange state es)"

text \<open>
  The pointer positions reached from a start position by a list of incremental
  deltas \<open>(dx, dy)\<close>.
\<close>

fun pointerPath :: "real \<times> real \<Rightarrow> (real \<times> real) list \<Rightarrow> PointerEvent list" where
  "pointerPath p [] = []"
| "pointerPath (px, py) ((dx, dy) # ds) =
     \<lparr>clientX = px + dx, clientY = py + dy\<rparr> # pointerPath (px + dx, py + dy) ds"

subsection \<open>Grain\<close>








definition sampleOverlay :: "string \<Rightarrow> real \<Rightarrow> real \<Rightarrow> real \<Rightarrow> TextOverlay" where
  "sampleOverlay i x y s =
     \<lparr>ov_id = i, ov_text = ''Title'', ov_x = x, ov_y = y, ov_size = s, ov_color = ''#ffffff'',
      ov_font = ''Inter'', ov_shadow = True, ov_bg = ''transparent'', ov_letterSpacing = 0\<rparr>"

definition sampleFilters :: "real \<Rightarrow> Filters" where
  "sampleFilters g =
     \<lparr>brightness = 100, contrast = 100, saturation = 100, sepia = 0, grayscale = 0, blur = 0,
      hue = 0, vignette = 0, grain = g\<rparr>"

definition sampleLabs :: "TextOverlay list \<Rightarrow> LabsState" where
  "sampleLabs ovs = \<lparr>filters = sampleFilters 0, overlays = ovs, transform = None\<rparr>"

section \<open>JavaScript values\<close>

text \<open>
  Field values, custom values and the blocks that arrive from the AI service are typed
  \<open>any\<close>; they are modelled as JSON values, with \<open>undefined\<close> for an absent
  property. An object is the list of its own properties in insertion order. Property
  reads see own properties only (and \<open>length\<close> of arrays and strings): no section or
  field id of the catalog names an inherited member. Numbers are the reals they denote;
  how a number prints (\<open>Number::toString\<close>) and how a string parses as a number
  (\<open>StringToNumber\<close>) belong to the language runtime and are parameters, \<open>numStr\<close>
  and \<open>strNum\<close> (\<open>None\<close> is \<open>NaN\<close>).
\<close>

datatype jsval =
    JUndefined
  | JNull
  | JBool bool
  | JNum real
  | JStr string
  | JArr "jsval list"
  | JObj "(string \<times> jsval) list"

datatype error = TypeError

fun truthy :: "jsval \<Rightarrow> bool" where
  "truthy JUndefined = False"
| "truthy JNull = False"
| "truthy (JBool b) = b"
| "truthy (JNum r) = (r \<noteq> 0)"
| "truthy (JStr s) = (s \<noteq> [])"
| "truthy (JArr xs) = True"
| "truthy (JObj kvs) = True"

text \<open>\<open>a ?? b\<close>\<close>

definition nullish :: "jsval \<Rightarrow> bool" where
  "nullish v = (v = JUndefined \<or> v = JNull)"

definition orElse :: "jsval \<Rightarrow> jsval \<Rightarrow> jsval" where
  "orElse a b = (if nullish a then b else a)"

text \<open>\<open>obj[key]\<close> on an object held in a typed record: \<open>undefined\<close> when absent.\<close>

definition lookupVal :: "(string \<times> jsval) list \<Rightarrow> string \<Rightarrow> jsval" where
  "lookupVal kvs k = (case map_of kvs k of None \<Rightarrow> JUndefined | Some v \<Rightarrow> v)"

text \<open>\<open>v.key\<close>: reading a property of \<open>undefined\<close> or \<open>null\<close> throws.\<close>

fun getProp :: "jsval \<Rightarrow> string \<Rightarrow> error + jsval" where
  "getProp JUndefined k = Inl TypeError"
| "getProp JNull k = Inl TypeError"
| "getProp (JObj kvs) k = Inr (lookupVal kvs k)"
| "getProp (JArr xs) k = Inr (if k = ''length'' then JNum (real (length xs)) else JUndefined)"
| "getProp (JStr s) k = Inr (if k = ''length'' then JNum (real (length s)) else JUndefined)"
| "getProp v k = Inr JUndefined"

text \<open>\<open>v?.key\<close>\<close>

definition optProp :: "jsval \<Rightarrow> string \<Rightarrow> jsval" where
  "optProp v k = (case getProp v k of Inl e \<Rightarrow> JUndefined | Inr x \<Rightarrow> x)"

text \<open>\<open>xs.join(sep)\<close> on strings.\<close>

fun joinWith :: "string \<Rightarrow> string list \<Rightarrow> string" where
  "joinWith sep [] = []"
| "joinWith sep [x] = x"
| "joinWith sep (x # y # ys) = x @ sep @ joinWith sep (y # ys)"

text \<open>
  \<open>ToString\<close>, as template literals and \<open>Array.prototype.join\<close> apply it: inside
  an array \<open>undefined\<close> and \<open>null\<close> print as the empty string.
\<close>

fun toStr :: "(real \<Rightarrow> string) \<Rightarrow> jsval \<Rightarrow> string" where
  "toStr numStr JUndefined = ''undefined''"
| "toStr numStr JNull = ''null''"
| "toStr numStr (JBool b) = (if b then ''true'' else ''false'')"
| "toStr numStr (JNum r) = numStr r"
| "toStr numStr (JStr s) = s"
| "toStr numStr (JArr xs) =
     joinWith '','' (map (\<lambda>x. if x = JUndefined \<or> x = JNull then [] else toStr numStr x) xs)"
| "toStr numStr (JObj kvs) = ''[object Object]''"



text \<open>Decimal digits of a natural number, for ids built from a timestamp or an index.\<close>

fun natStr :: "nat \<Rightarrow> string" where
  "natStr n = (if n < 10 then [''0123456789'' ! n] else natStr (n div 10) @ [''0123456789'' ! (n mod 10)])"

declare natStr.simps [simp del]

text \<open>\<open>obj[key] = v\<close> on an object under construction: an existing key keeps its place.\<close>

fun objSet :: "(string \<times> 'a) list \<Rightarrow> string \<Rightarrow> 'a \<Rightarrow> (string \<times> 'a) list" where
  "objSet [] k v = [(k, v)]"
| "objSet ((k', v') # kvs) k v = (if k' = k then (k, v) # kvs else (k', v') # objSet kvs k v)"

definition startsWith :: "string \<Rightarrow> string \<Rightarrow> bool" where
  "startsWith s p = (take (length p) s = p)"


section \<open>Block schema and block state\<close>

datatype BlockType =
    SUBJECT | BACKGROUND | MOOD | LIGHTING | CAMERA | STYLE | POST_PROCESSING | FX

text \<open>The string value of each member of the enum.\<close>

fun blockTypeName :: "BlockType \<Rightarrow> string" where
  "blockTypeName SUBJECT = ''Subject''"
| "blockTypeName BACKGROUND = ''Background & Atmosphere''"
| "blockTypeName MOOD = ''Mood & Emotion''"
| "blockTypeName LIGHTING = ''Lighting''"
| "blockTypeName CAMERA = ''Camera & Composition''"
| "blockTypeName STYLE = ''Art Style''"
| "blockTypeName POST_PROCESSING = ''Post-Processing''"
| "blockTypeName FX = ''Special Effects''"

definition allBlockTypes :: "BlockType list" where
  "allBlockTypes = [SUBJECT, BACKGROUND, MOOD, LIGHTING, CAMERA, STYLE, POST_PROCESSING, FX]"

datatype FieldType =
    FT_select | FT_text | FT_slider | FT_color | FT_toggle | FT_visual_select | FT_tags
  | FT_radio | FT_segmented | FT_checkbox | FT_detailed_list | FT_position_picker

text \<open>
  Of a field definition the engine reads the id, the label, the type and the default
  value; options, suggestions, bounds and units only drive the controls.
\<close>

record BlockField =
  f_id :: string
  f_label :: string
  f_type :: FieldType
  defaultValue :: jsval

datatype CondValue = CondStr string | CondSet "string list"

record Condition =
  c_blockType :: "BlockType option"
  c_sectionId :: string
  c_fieldId :: string
  c_value :: CondValue

record BlockSectionDefinition =
  s_id :: string
  s_label :: string
  toggleable :: bool
  s_fields :: "BlockField list"
  condition :: "Condition option"

record BlockDefinition =
  d_type :: BlockType
  d_label :: string
  d_sections :: "BlockSectionDefinition list"
  singleActiveInstance :: bool

text \<open>
  \<open>enabled\<close> is declared \<open>boolean | undefined\<close>, but the import path stores
  whatever the incoming data holds, and the compiler tests it for truthiness.
\<close>

record SectionState =
  enabled :: jsval
  st_fields :: "(string \<times> jsval) list"

datatype CustomType = CT_text | CT_slider | CT_checkbox | CT_color

record CustomProperty =
  cp_id :: string
  cp_label :: string
  cp_type :: CustomType
  cp_value :: jsval

record BlockState =
  b_id :: string
  b_type :: BlockType
  customLabel :: "string option"
  isActive :: bool
  sections :: "(string \<times> SectionState) list"
  customValues :: "CustomProperty list option"
  referenceImage :: "string option"

text \<open>\<open>block.sections[sectionId]?.fields?.[fieldId]\<close>\<close>

definition getField :: "BlockState \<Rightarrow> string \<Rightarrow> string \<Rightarrow> jsval" where
  "getField b secId fieldId =
     (case map_of (sections b) secId of
        None \<Rightarrow> JUndefined
      | Some st \<Rightarrow> lookupVal (st_fields st) fieldId)"


subsection \<open>The catalog of block definitions\<close>

definition SUBJECT_DEFINITION :: BlockDefinition where
  "SUBJECT_DEFINITION =
     \<lparr>d_type = SUBJECT, d_label = ''Subject'',
      d_sections =
        [\<lparr>s_id = ''core'', s_label = ''Identity'', toggleable = False,
          s_fields =
           [\<lparr>f_id = ''category'', f_label = ''Type'', f_type = FT_select, defaultValue = JStr ''Human''\<rparr>,
            \<lparr>f_id = ''count'', f_label = ''Number'', f_type = FT_radio, defaultValue = JStr ''Single''\<rparr>,
            \<lparr>f_id = ''role'', f_label = ''Description/Role'', f_type = FT_text, defaultValue = JStr ''''\<rparr>],
          condition = None\<rparr>,
         \<lparr>s_id = ''placement'', s_label = ''Placement & Depth'', toggleable = False,
          s_fields =
           [\<lparr>f_id = ''frame_position'', f_label = ''Frame Position'', f_type = FT_position_picker, defaultValue = JObj [(''x'', JNum 50), (''y'', JNum 50), (''label'', JStr ''Center'')]\<rparr>,
            \<lparr>f_id = ''subject_size'', f_label = ''Size'', f_type = FT_slider, defaultValue = JNum 80\<rparr>,
            \<lparr>f_id = ''subject_distance'', f_label = ''Distance from Camera'', f_type = FT_slider, defaultValue = JNum 50\<rparr>],
          condition = None\<rparr>,
         \<lparr>s_id = ''human_physique'', s_label = ''Body & Looks'', toggleable = False,
          s_fields =
           [\<lparr>f_id = ''age'', f_label = ''Age'', f_type = FT_text, defaultValue = JStr ''''\<rparr>,
            \<lparr>f_id = ''gender'', f_label = ''Gender'', f_type = FT_select, defaultValue = JStr ''Female''\<rparr>,
            \<lparr>f_id = ''ethnicity'', f_label = ''Ethnicity'', f_type = FT_text, defaultValue = JStr ''''\<rparr>,
            \<lparr>f_id = ''body_type'', f_label = ''Physique'', f_type = FT_select, defaultValue = JStr ''Average''\<rparr>,
            \<lparr>f_id = ''hair_style'', f_label = ''Hair Style'', f_type = FT_text, defaultValue = JStr ''''\<rparr>,
            \<lparr>f_id = ''hair_color'', f_label = ''Hair Color'', f_type = FT_color, defaultValue = JStr ''#000000''\<rparr>],
          condition = Some \<lparr>c_blockType = None, c_sectionId = ''core'', c_fieldId = ''category'',
            c_value = CondStr ''Human''\<rparr>\<rparr>,
         \<lparr>s_id = ''human_attire'', s_label = ''Wearables'', toggleable = False,
          s_fields =
           [\<lparr>f_id = ''style'', f_label = ''Fashion Style'', f_type = FT_select, defaultValue = JStr ''Casual''\<rparr>,
            \<lparr>f_id = ''attire_head'', f_label = ''Headwear'', f_type = FT_detailed_list, defaultValue = JArr []\<rparr>,
            \<lparr>f_id = ''attire_inner'', f_label = ''Upper Body (Inner)'', f_type = FT_detailed_list, defaultValue = JArr []\<rparr>,
            \<lparr>f_id = ''attire_outer'', f_label = ''Outerwear (Coat/Jacket)'', f_type = FT_detailed_list, defaultValue = JArr []\<rparr>,
            \<lparr>f_id = ''attire_lower'', f_label = ''Lower Body'', f_type = FT_detailed_list, defaultValue = JArr []\<rparr>,
            \<lparr>f_id = ''attire_feet'', f_label = ''Footwear'', f_type = FT_detailed_list, defaultValue = JArr []\<rparr>,
            \<lparr>f_id = ''accessories'', f_label = ''Props / Extras'', f_type = FT_detailed_list, defaultValue = JArr []\<rparr>],
          condition = Some \<lparr>c_blockType = None, c_sectionId = ''core'', c_fieldId = ''category'',
            c_value = CondStr ''Human''\<rparr>\<rparr>,
         \<lparr>s_id = ''creature_traits'', s_label = ''Traits'', toggleable = False,
          s_fields =
           [\<lparr>f_id = ''species'', f_label = ''Species'', f_type = FT_text, defaultValue = JStr ''''\<rparr>,
            \<lparr>f_id = ''texture'', f_label = ''Skin/Surface'', f_type = FT_select, defaultValue = JStr ''Fur''\<rparr>,
            \<lparr>f_id = ''color_pattern'', f_label = ''Color'', f_type = FT_text, defaultValue = JStr ''''\<rparr>],
          condition = Some \<lparr>c_blockType = None, c_sectionId = ''core'', c_fieldId = ''category'',
            c_value = CondSet [''Animal'', ''Creature'', ''Robot'']\<rparr>\<rparr>,
         \<lparr>s_id = ''object_specs'', s_label = ''Details'', toggleable = False,
          s_fields =
           [\<lparr>f_id = ''material_type'', f_label = ''Material'', f_type = FT_select, defaultValue = JStr ''Matte Plastic''\<rparr>,
            \<lparr>f_id = ''condition'', f_label = ''Condition'', f_type = FT_segmented, defaultValue = JStr ''Brand New''\<rparr>],
          condition = Some \<lparr>c_blockType = None, c_sectionId = ''core'', c_fieldId = ''category'',
            c_value = CondSet [''Object'', ''Vehicle'']\<rparr>\<rparr>,
         \<lparr>s_id = ''pose_action'', s_label = ''Action & Pose'', toggleable = False,
          s_fields =
           [\<lparr>f_id = ''pose'', f_label = ''Pose'', f_type = FT_text, defaultValue = JStr ''''\<rparr>,
            \<lparr>f_id = ''view_angle'', f_label = ''Angle'', f_type = FT_select, defaultValue = JStr ''Front''\<rparr>,
            \<lparr>f_id = ''action'', f_label = ''Activity'', f_type = FT_text, defaultValue = JStr ''''\<rparr>],
          condition = Some \<lparr>c_blockType = None, c_sectionId = ''core'', c_fieldId = ''category'',
            c_value = CondSet [''Human'', ''Animal'', ''Creature'', ''Robot'']\<rparr>\<rparr>,
         \<lparr>s_id = ''object_view'', s_label = ''Orientation'', toggleable = False,
          s_fields =
           [\<lparr>f_id = ''placement_context'', f_label = ''Context'', f_type = FT_text, defaultValue = JStr ''''\<rparr>,
            \<lparr>f_id = ''rotation'', f_label = ''Angle'', f_type = FT_radio, defaultValue = JStr ''Front facing''\<rparr>],
          condition = Some \<lparr>c_blockType = None, c_sectionId = ''core'', c_fieldId = ''category'',
            c_value = CondSet [''Object'', ''Vehicle'']\<rparr>\<rparr>,
         \<lparr>s_id = ''interactions'', s_label = ''Interactions'', toggleable = True,
          s_fields =
           [\<lparr>f_id = ''target_subject'', f_label = ''With Whom?'', f_type = FT_select, defaultValue = JStr ''None''\<rparr>,
            \<lparr>f_id = ''interaction_type'', f_label = ''Doing What?'', f_type = FT_text, defaultValue = JStr ''''\<rparr>],
          condition = Some \<lparr>c_blockType = None, c_sectionId = ''core'', c_fieldId = ''category'',
            c_value = CondSet [''Human'', ''Animal'', ''Creature'', ''Robot'']\<rparr>\<rparr>],
      singleActiveInstance = False\<rparr>"

definition BACKGROUND_DEFINITION :: BlockDefinition where
  "BACKGROUND_DEFINITION =
     \<lparr>d_type = BACKGROUND, d_label = ''Background'',
      d_sections =
        [\<lparr>s_id = ''setting'', s_label = ''Location'', toggleable = False,
          s_fields =
           [\<lparr>f_id = ''type'', f_label = ''Type'', f_type = FT_select, defaultValue = JStr ''Outdoor''\<rparr>,
            \<lparr>f_id = ''environment'', f_label = ''Setting'', f_type = FT_text, defaultValue = JStr ''''\<rparr>,
            \<lparr>f_id = ''time'', f_label = ''Time'', f_type = FT_select, defaultValue = JStr ''Day''\<rparr>],
          condition = None\<rparr>,
         \<lparr>s_id = ''weather'', s_label = ''Weather'', toggleable = True,
          s_fields =
           [\<lparr>f_id = ''precip_type'', f_label = ''Condition'', f_type = FT_select, defaultValue = JStr ''None''\<rparr>,
            \<lparr>f_id = ''intensity'', f_label = ''Intensity'', f_type = FT_slider, defaultValue = JNum 50\<rparr>,
            \<lparr>f_id = ''wetness'', f_label = ''Wetness'', f_type = FT_slider, defaultValue = JNum 50\<rparr>],
          condition = None\<rparr>,
         \<lparr>s_id = ''fog'', s_label = ''Atmosphere (Fog)'', toggleable = True,
          s_fields =
           [\<lparr>f_id = ''density'', f_label = ''Density'', f_type = FT_slider, defaultValue = JNum 30\<rparr>,
            \<lparr>f_id = ''color'', f_label = ''Color'', f_type = FT_color, defaultValue = JStr ''#a1a1aa''\<rparr>],
          condition = None\<rparr>,
         \<lparr>s_id = ''transparency'', s_label = ''Background Removal'', toggleable = True,
          s_fields =
           [\<lparr>f_id = ''remove_bg'', f_label = ''Transparent BG'', f_type = FT_toggle, defaultValue = JBool False\<rparr>],
          condition = None\<rparr>],
      singleActiveInstance = True\<rparr>"

definition LIGHTING_DEFINITION :: BlockDefinition where
  "LIGHTING_DEFINITION =
     \<lparr>d_type = LIGHTING, d_label = ''Lighting'',
      d_sections =
        [\<lparr>s_id = ''key_light'', s_label = ''Main Light'', toggleable = False,
          s_fields =
           [\<lparr>f_id = ''source'', f_label = ''Source'', f_type = FT_select, defaultValue = JStr ''Sun''\<rparr>,
            \<lparr>f_id = ''direction'', f_label = ''Direction'', f_type = FT_select, defaultValue = JStr ''Side''\<rparr>,
            \<lparr>f_id = ''intensity'', f_label = ''Brightness'', f_type = FT_slider, defaultValue = JNum 80\<rparr>,
            \<lparr>f_id = ''color'', f_label = ''Color'', f_type = FT_color, defaultValue = JStr ''#ffffff''\<rparr>,
            \<lparr>f_id = ''quality'', f_label = ''Softness'', f_type = FT_segmented, defaultValue = JStr ''Soft''\<rparr>],
          condition = None\<rparr>,
         \<lparr>s_id = ''fill_light'', s_label = ''Fill Light'', toggleable = True,
          s_fields =
           [\<lparr>f_id = ''intensity'', f_label = ''Brightness'', f_type = FT_slider, defaultValue = JNum 40\<rparr>,
            \<lparr>f_id = ''color'', f_label = ''Color'', f_type = FT_color, defaultValue = JStr ''#b0b0b0''\<rparr>],
          condition = None\<rparr>,
         \<lparr>s_id = ''rim_light'', s_label = ''Rim / Back Light'', toggleable = True,
          s_fields =
           [\<lparr>f_id = ''intensity'', f_label = ''Brightness'', f_type = FT_slider, defaultValue = JNum 70\<rparr>,
            \<lparr>f_id = ''color'', f_label = ''Color'', f_type = FT_color, defaultValue = JStr ''#ffffff''\<rparr>],
          condition = None\<rparr>],
      singleActiveInstance = True\<rparr>"

definition MOOD_DEFINITION :: BlockDefinition where
  "MOOD_DEFINITION =
     \<lparr>d_type = MOOD, d_label = ''Mood'',
      d_sections =
        [\<lparr>s_id = ''emotion'', s_label = ''Emotion'', toggleable = False,
          s_fields =
           [\<lparr>f_id = ''primary'', f_label = ''Feeling'', f_type = FT_text, defaultValue = JStr ''''\<rparr>,
            \<lparr>f_id = ''intensity'', f_label = ''Intensity'', f_type = FT_slider, defaultValue = JNum 50\<rparr>],
          condition = Some \<lparr>c_blockType = Some SUBJECT, c_sectionId = ''core'', c_fieldId = ''category'',
            c_value = CondSet [''Human'', ''Animal'', ''Creature'', ''Robot'']\<rparr>\<rparr>,
         \<lparr>s_id = ''atmosphere'', s_label = ''Vibe'', toggleable = False,
          s_fields =
           [\<lparr>f_id = ''vibe'', f_label = ''Atmosphere'', f_type = FT_text, defaultValue = JStr ''''\<rparr>],
          condition = None\<rparr>],
      singleActiveInstance = True\<rparr>"

definition CAMERA_DEFINITION :: BlockDefinition where
  "CAMERA_DEFINITION =
     \<lparr>d_type = CAMERA, d_label = ''Camera'',
      d_sections =
        [\<lparr>s_id = ''composition'', s_label = ''Framing'', toggleable = False,
          s_fields =
           [\<lparr>f_id = ''shot_size'', f_label = ''Shot Size'', f_type = FT_select, defaultValue = JStr ''Medium Shot''\<rparr>,
            \<lparr>f_id = ''angle'', f_label = ''Angle'', f_type = FT_select, defaultValue = JStr ''Eye Level''\<rparr>],
          condition = None\<rparr>,
         \<lparr>s_id = ''optics'', s_label = ''Lens & Focus'', toggleable = False,
          s_fields =
           [\<lparr>f_id = ''focal_length'', f_label = ''Zoom Level'', f_type = FT_select, defaultValue = JStr ''50mm Portrait''\<rparr>,
            \<lparr>f_id = ''aperture'', f_label = ''Blur Background'', f_type = FT_radio, defaultValue = JStr ''f/2.8''\<rparr>],
          condition = None\<rparr>],
      singleActiveInstance = True\<rparr>"

definition STYLE_DEFINITION :: BlockDefinition where
  "STYLE_DEFINITION =
     \<lparr>d_type = STYLE, d_label = ''Art Style'',
      d_sections =
        [\<lparr>s_id = ''render'', s_label = ''Look & Feel'', toggleable = False,
          s_fields =
           [\<lparr>f_id = ''medium'', f_label = ''Medium'', f_type = FT_select, defaultValue = JStr ''Photography''\<rparr>,
            \<lparr>f_id = ''engine'', f_label = ''Engine/Tool'', f_type = FT_text, defaultValue = JStr ''''\<rparr>],
          condition = None\<rparr>,
         \<lparr>s_id = ''film_stock'', s_label = ''Film Look'', toggleable = False,
          s_fields =
           [\<lparr>f_id = ''film_type'', f_label = ''Stock'', f_type = FT_text, defaultValue = JStr ''''\<rparr>,
            \<lparr>f_id = ''grain'', f_label = ''Grain'', f_type = FT_slider, defaultValue = JNum 20\<rparr>],
          condition = Some \<lparr>c_blockType = None, c_sectionId = ''render'', c_fieldId = ''medium'',
            c_value = CondStr ''Photography''\<rparr>\<rparr>],
      singleActiveInstance = True\<rparr>"

definition POST_PROCESSING_DEFINITION :: BlockDefinition where
  "POST_PROCESSING_DEFINITION =
     \<lparr>d_type = POST_PROCESSING, d_label = ''Color Grade'',
      d_sections =
        [\<lparr>s_id = ''grading'', s_label = ''Colors'', toggleable = False,
          s_fields =
           [\<lparr>f_id = ''tone'', f_label = ''Tone'', f_type = FT_select, defaultValue = JStr ''Natural''\<rparr>,
            \<lparr>f_id = ''contrast'', f_label = ''Contrast'', f_type = FT_slider, defaultValue = JNum 50\<rparr>,
            \<lparr>f_id = ''saturation'', f_label = ''Saturation'', f_type = FT_slider, defaultValue = JNum 50\<rparr>],
          condition = None\<rparr>],
      singleActiveInstance = True\<rparr>"

definition FX_DEFINITION :: BlockDefinition where
  "FX_DEFINITION =
     \<lparr>d_type = FX, d_label = ''Effects'',
      d_sections =
        [\<lparr>s_id = ''particles'', s_label = ''Particles'', toggleable = False,
          s_fields =
           [\<lparr>f_id = ''type'', f_label = ''Type'', f_type = FT_select, defaultValue = JStr ''Dust''\<rparr>,
            \<lparr>f_id = ''amount'', f_label = ''Amount'', f_type = FT_slider, defaultValue = JNum 40\<rparr>],
          condition = None\<rparr>],
      singleActiveInstance = False\<rparr>"

fun BLOCK_DEFINITIONS :: "BlockType \<Rightarrow> BlockDefinition" where
  "BLOCK_DEFINITIONS SUBJECT = SUBJECT_DEFINITION"
| "BLOCK_DEFINITIONS BACKGROUND = BACKGROUND_DEFINITION"
| "BLOCK_DEFINITIONS LIGHTING = LIGHTING_DEFINITION"
| "BLOCK_DEFINITIONS MOOD = MOOD_DEFINITION"
| "BLOCK_DEFINITIONS CAMERA = CAMERA_DEFINITION"
| "BLOCK_DEFINITIONS STYLE = STYLE_DEFINITION"
| "BLOCK_DEFINITIONS POST_PROCESSING = POST_PROCESSING_DEFINITION"
| "BLOCK_DEFINITIONS FX = FX_DEFINITION"


section \<open>The prompt compiler\<close>



text \<open>The merge of global and local blocks at the head of the compiler.\<close>

definition blocksToProcess ::
  "(BlockType \<Rightarrow> BlockDefinition) \<Rightarrow> BlockState list \<Rightarrow> bool \<Rightarrow> BlockState list option
     \<Rightarrow> BlockState list" where
  "blocksToProcess defs localBlocks useBaseStyle globalBlocks =
     (case globalBlocks of
        None \<Rightarrow> localBlocks
      | Some gbs \<Rightarrow>
          if useBaseStyle \<and> length gbs > 0 then
            let localTypes = set (map b_type (filter isActive localBlocks));
                activeGlobals =
                  filter (\<lambda>gb. if \<not> isActive gb then False
                               else if singleActiveInstance (defs (b_type gb)) \<and> b_type gb \<in> localTypes
                                    then False
                               else True) gbs
            in activeGlobals @ localBlocks
          else localBlocks)"










fun isArray :: "jsval \<Rightarrow> bool" where
  "isArray (JArr xs) = True"
| "isArray v = False"


fun mapE :: "('a \<Rightarrow> error + 'b) \<Rightarrow> 'a list \<Rightarrow> error + 'b list" where
  "mapE f [] = Inr []"
| "mapE f (x # xs) =
     (case f x of
        Inl e \<Rightarrow> Inl e
      | Inr y \<Rightarrow> (case mapE f xs of Inl e \<Rightarrow> Inl e | Inr ys \<Rightarrow> Inr (y # ys)))"













section \<open>Import of blocks from the AI service\<close>

text \<open>
  The names every object literal inherits from \<open>Object.prototype\<close>. Looking one of
  them up in the catalog yields a value that is not a block definition.
\<close>

definition objectPrototypeKeys :: "string list" where
  "objectPrototypeKeys =
     [''constructor'', ''__defineGetter__'', ''__defineSetter__'', ''hasOwnProperty'',
      ''__lookupGetter__'', ''__lookupSetter__'', ''isPrototypeOf'', ''propertyIsEnumerable'',
      ''toString'', ''valueOf'', ''__proto__'', ''toLocaleString'']"

text \<open>
  \<open>BLOCK_DEFINITIONS[rb.type as BlockType]\<close> on an arbitrary value: the key is its
  string form. \<open>Inr None\<close> is \<open>undefined\<close>; an inherited member is truthy and has no
  \<open>sections\<close>, so the loop over its sections throws.
\<close>

definition lookupDefinition ::
  "(BlockType \<Rightarrow> BlockDefinition) \<Rightarrow> (real \<Rightarrow> string) \<Rightarrow> jsval \<Rightarrow> error + BlockDefinition option" where
  "lookupDefinition defs numStr ty =
     (let key = toStr numStr ty
      in case find (\<lambda>t. blockTypeName t = key) allBlockTypes of
           Some t \<Rightarrow> Inr (Some (defs t))
         | None \<Rightarrow> if key \<in> set objectPrototypeKeys then Inl TypeError else Inr None)"

text \<open>\<open>Object.values(BlockType).includes(v)\<close>, with the member found.\<close>

definition blockTypeOf :: "jsval \<Rightarrow> BlockType option" where
  "blockTypeOf v = find (\<lambda>t. v = JStr (blockTypeName t)) allBlockTypes"

definition safeSection :: "jsval \<Rightarrow> BlockSectionDefinition \<Rightarrow> SectionState" where
  "safeSection rb secDef =
     (let incomingSec = optProp (optProp rb ''sections'') (s_id secDef);
          finalFields =
            foldl (\<lambda>acc f. objSet acc (f_id f)
                     (orElse (optProp (optProp incomingSec ''fields'') (f_id f)) (defaultValue f)))
              [] (s_fields secDef)
      in \<lparr>enabled = (if toggleable secDef then orElse (optProp incomingSec ''enabled'') (JBool False)
                     else JUndefined),
          st_fields = finalFields\<rparr>)"

definition safeSections :: "jsval \<Rightarrow> BlockDefinition option \<Rightarrow> (string \<times> SectionState) list" where
  "safeSections rb def =
     (case def of
        None \<Rightarrow> []
      | Some d \<Rightarrow> foldl (\<lambda>acc secDef. objSet acc (s_id secDef) (safeSection rb secDef)) [] (d_sections d))"

text \<open>
  The id of an imported block: \<open>rb.id\<close> when it is a string that starts with
  \<open>b-\<close>; calling \<open>startsWith\<close> on a truthy value that is not a string throws.
\<close>

definition importedId :: "nat \<Rightarrow> nat \<Rightarrow> jsval \<Rightarrow> error + string" where
  "importedId now idx rbId =
     (if truthy rbId then
        (case rbId of
           JStr s \<Rightarrow> if startsWith s ''b-'' then Inr s
                     else Inr (''generated-'' @ natStr now @ ''-'' @ natStr idx)
         | _ \<Rightarrow> Inl TypeError)
      else Inr (''generated-'' @ natStr now @ ''-'' @ natStr idx))"

text \<open>
  The callback of \<open>rawBlocks.map\<close>. The result keeps the raw \<open>type\<close>, which the
  filter after the map inspects. \<open>now\<close> is the value of \<open>Date.now()\<close>.
\<close>

definition parseRawBlock ::
  "(BlockType \<Rightarrow> BlockDefinition) \<Rightarrow> (real \<Rightarrow> string) \<Rightarrow> nat \<Rightarrow> jsval \<times> nat
     \<Rightarrow> error + (jsval \<times> string \<times> (string \<times> SectionState) list)" where
  "parseRawBlock defs numStr now entry =
     (case entry of (rb, idx) \<Rightarrow>
        (case getProp rb ''type'' of
           Inl e \<Rightarrow> Inl e
         | Inr ty \<Rightarrow>
             (case lookupDefinition defs numStr ty of
                Inl e \<Rightarrow> Inl e
              | Inr def \<Rightarrow>
                  (case importedId now idx (optProp rb ''id'') of
                     Inl e \<Rightarrow> Inl e
                   | Inr i \<Rightarrow> Inr (ty, i, safeSections rb def)))))"

definition parseRawBlocksToState ::
  "(BlockType \<Rightarrow> BlockDefinition) \<Rightarrow> (real \<Rightarrow> string) \<Rightarrow> nat \<Rightarrow> jsval list
     \<Rightarrow> error + BlockState list" where
  "parseRawBlocksToState defs numStr now rawBlocks =
     (case mapE (parseRawBlock defs numStr now) (zip rawBlocks [0..<length rawBlocks]) of
        Inl e \<Rightarrow> Inl e
      | Inr parsed \<Rightarrow>
          Inr (concat (map (\<lambda>(ty, i, secs).
                 case blockTypeOf ty of
                   None \<Rightarrow> []
                 | Some t \<Rightarrow>
                     [\<lparr>b_id = i, b_type = t, customLabel = None, isActive = True, sections = secs,
                       customValues = None, referenceImage = None\<rparr>]) parsed)))"


section \<open>The block store of the editor\<close>

text \<open>
  \<open>JSON.parse(JSON.stringify(v))\<close>: a property whose value is \<open>undefined\<close> is
  dropped, and \<open>undefined\<close> inside an array becomes \<open>null\<close>.
\<close>

fun jsonRoundTrip :: "jsval \<Rightarrow> jsval" where
  "jsonRoundTrip (JArr xs) = JArr (map (\<lambda>x. if x = JUndefined then JNull else jsonRoundTrip x) xs)"
| "jsonRoundTrip (JObj kvs) =
     JObj (map (\<lambda>kv. (fst kv, jsonRoundTrip (snd kv))) (filter (\<lambda>kv. snd kv \<noteq> JUndefined) kvs))"
| "jsonRoundTrip v = v"

text \<open>
  The deep copy of a block. A dropped property reads as \<open>undefined\<close> afterwards, so
  in the record a field that is \<open>undefined\<close> stays so.
\<close>

definition copySection :: "SectionState \<Rightarrow> SectionState" where
  "copySection st =
     \<lparr>enabled = jsonRoundTrip (enabled st),
      st_fields = map (\<lambda>kv. (fst kv, jsonRoundTrip (snd kv)))
                    (filter (\<lambda>kv. snd kv \<noteq> JUndefined) (st_fields st))\<rparr>"

definition deepCopyBlock :: "BlockState \<Rightarrow> BlockState" where
  "deepCopyBlock b =
     b\<lparr>sections := map (\<lambda>kv. (fst kv, copySection (snd kv))) (sections b),
       customValues := map_option (map (\<lambda>cv. cv\<lparr>cp_value := jsonRoundTrip (cp_value cv)\<rparr>))
                         (customValues b)\<rparr>"

text \<open>The sections of a new block: every field at its default, every toggle off.\<close>

definition defaultSections :: "BlockDefinition \<Rightarrow> (string \<times> SectionState) list" where
  "defaultSections def =
     foldl (\<lambda>acc s. objSet acc (s_id s)
              \<lparr>enabled = (if toggleable s then JBool False else JUndefined),
               st_fields = foldl (\<lambda>fs f. objSet fs (f_id f) (defaultValue f)) [] (s_fields s)\<rparr>)
       [] (d_sections def)"

text \<open>
  The state the operations of the editor read and write: the local blocks of the file,
  the global blocks of the project (changed through \<open>onUpdateGlobalBlock\<close>, which the
  application binds to \<open>updateGlobalBlock\<close>), the selection and the toast.
\<close>

record EditorState =
  blocks :: "BlockState list"
  globalBlocks :: "BlockState list"
  selectedBlockId :: "string option"
  toastMessage :: "string option"

definition insertNewBlock :: "EditorState \<Rightarrow> BlockState \<Rightarrow> bool \<Rightarrow> EditorState" where
  "insertNewBlock st newBlock isSingleInstance =
     (let deactivatedOther =
            (isSingleInstance \<and> (\<exists>b \<in> set (blocks st). b_type b = b_type newBlock \<and> isActive b));
          updatedBlocks =
            (if isSingleInstance
             then map (\<lambda>b. if b_type b = b_type newBlock \<and> isActive b then b\<lparr>isActive := False\<rparr> else b)
                    (blocks st)
             else blocks st)
      in st\<lparr>blocks := updatedBlocks @ [newBlock],
            selectedBlockId := Some (b_id newBlock),
            toastMessage :=
              Some (if deactivatedOther then ''Switched active to new block.''
                    else ''Added block: ''
                         @ (case customLabel newBlock of None \<Rightarrow> ''undefined'' | Some l \<Rightarrow> l))\<rparr>)"

text \<open>\<open>now\<close> is the value of \<open>Date.now()\<close> that names the new block.\<close>

definition addBlock ::
  "(BlockType \<Rightarrow> BlockDefinition) \<Rightarrow> nat \<Rightarrow> EditorState \<Rightarrow> BlockType \<Rightarrow> EditorState" where
  "addBlock defs now st ty =
     (let def = defs ty;
          existingCount = length (filter (\<lambda>b. b_type b = ty) (blocks st));
          newCount = existingCount + 1;
          newBlock =
            \<lparr>b_id = ''block-'' @ natStr now, b_type = ty,
             customLabel = Some (d_label def @ '' '' @ natStr newCount), isActive = True,
             sections = defaultSections def, customValues = None, referenceImage = None\<rparr>
      in insertNewBlock st newBlock (singleActiveInstance def))"

text \<open>\<open>xs.findIndex(p)\<close>, and \<open>xs.splice(i, 0, x)\<close> for \<open>i \<ge> 0\<close>.\<close>

fun findIndex :: "('a \<Rightarrow> bool) \<Rightarrow> 'a list \<Rightarrow> int" where
  "findIndex p [] = -1"
| "findIndex p (x # xs) =
     (if p x then 0 else (let i = findIndex p xs in if i < 0 then -1 else i + 1))"

definition spliceIn :: "nat \<Rightarrow> 'a \<Rightarrow> 'a list \<Rightarrow> 'a list" where
  "spliceIn i x xs = take i xs @ [x] @ drop i xs"

definition duplicateBlock ::
  "(BlockType \<Rightarrow> BlockDefinition) \<Rightarrow> nat \<Rightarrow> EditorState \<Rightarrow> BlockState \<Rightarrow> EditorState" where
  "duplicateBlock defs now st block =
     (if \<exists>gb \<in> set (globalBlocks st). b_id gb = b_id block then
        st\<lparr>toastMessage := Some ''Cannot duplicate Global Block here.''\<rparr>
      else
        let def = defs (b_type block);
            existingCount = length (filter (\<lambda>b. b_type b = b_type block) (blocks st));
            newCount = existingCount + 1;
            newLabel = d_label def @ '' '' @ natStr newCount;
            newBlock = (deepCopyBlock block)
              \<lparr>b_id := ''block-'' @ natStr now, customLabel := Some newLabel,
               isActive := (if singleActiveInstance def then False else isActive block)\<rparr>;
            idx = findIndex (\<lambda>b. b_id b = b_id block) (blocks st)
        in st\<lparr>blocks := spliceIn (nat (idx + 1)) newBlock (blocks st),
              selectedBlockId := Some (b_id newBlock)\<rparr>)"

text \<open>\<open>updateGlobalBlock\<close> of the application, on the global blocks of the project.\<close>

definition updateGlobalBlock :: "BlockState list \<Rightarrow> BlockState \<Rightarrow> BlockState list" where
  "updateGlobalBlock globals updatedBlock =
     map (\<lambda>b. if b_id b = b_id updatedBlock then updatedBlock else b) globals"

definition toggleBlockActive ::
  "(BlockType \<Rightarrow> BlockDefinition) \<Rightarrow> EditorState \<Rightarrow> BlockState \<Rightarrow> EditorState" where
  "toggleBlockActive defs st block =
     (let def = defs (b_type block);
          willBeActive = (\<not> isActive block)
      in if \<exists>gb \<in> set (globalBlocks st). b_id gb = b_id block then
           st\<lparr>globalBlocks := updateGlobalBlock (globalBlocks st) (block\<lparr>isActive := willBeActive\<rparr>)\<rparr>
         else
           let deactivatedOther =
                 (willBeActive \<and> singleActiveInstance def \<and>
                  (\<exists>b \<in> set (blocks st). b_type b = b_type block \<and> b_id b \<noteq> b_id block \<and> isActive b));
               updatedBlocks =
                 (if willBeActive \<and> singleActiveInstance def
                  then map (\<lambda>b. if b_type b = b_type block \<and> b_id b \<noteq> b_id block \<and> isActive b
                                 then b\<lparr>isActive := False\<rparr> else b) (blocks st)
                  else blocks st);
               updatedBlocks2 =
                 map (\<lambda>b. if b_id b = b_id block then b\<lparr>isActive := willBeActive\<rparr> else b) updatedBlocks
           in st\<lparr>blocks := updatedBlocks2,
                 toastMessage :=
                   (if deactivatedOther
                    then Some (''Switched active '' @ d_label def @ ''. Only one allowed.'')
                    else toastMessage st)\<rparr>)"

subsection \<open>Global blocks in the project view\<close>

text \<open>
  \<open>createDefaultBlockState\<close>: \<open>now\<close> is \<open>Date.now()\<close>, \<open>rnd\<close> the random
  base-36 suffix of the id. An override names a section, the field values to merge in and,
  unless it is \<open>undefined\<close>, the toggle.
\<close>

definition applyOverride ::
  "(string \<times> SectionState) list \<Rightarrow> string \<times> SectionState \<Rightarrow> (string \<times> SectionState) list" where
  "applyOverride secs ov =
     (case map_of secs (fst ov) of
        None \<Rightarrow> secs
      | Some cur \<Rightarrow>
          objSet secs (fst ov)
            \<lparr>enabled = (if enabled (snd ov) \<noteq> JUndefined then enabled (snd ov) else enabled cur),
             st_fields = foldl (\<lambda>fs kv. objSet fs (fst kv) (snd kv)) (st_fields cur) (st_fields (snd ov))\<rparr>)"

definition createDefaultBlockState ::
  "(BlockType \<Rightarrow> BlockDefinition) \<Rightarrow> nat \<Rightarrow> string \<Rightarrow> BlockType \<Rightarrow> (string \<times> SectionState) list
     \<Rightarrow> BlockState" where
  "createDefaultBlockState defs now rnd ty overrides =
     (let def = defs ty
      in \<lparr>b_id = ''b-'' @ blockTypeName ty @ ''-'' @ natStr now @ ''-'' @ rnd, b_type = ty,
          customLabel = Some (d_label def), isActive = True,
          sections = foldl applyOverride (defaultSections def) overrides,
          customValues = None, referenceImage = None\<rparr>)"

definition addGlobalBlock ::
  "(BlockType \<Rightarrow> BlockDefinition) \<Rightarrow> nat \<Rightarrow> string \<Rightarrow> BlockState list \<Rightarrow> BlockType
     \<Rightarrow> BlockState list" where
  "addGlobalBlock defs now rnd globals ty =
     (let def = defs ty;
          existingCount = length (filter (\<lambda>b. b_type b = ty) globals);
          customLabel' =
            (if \<not> singleActiveInstance def \<and> existingCount > 0
             then d_label def @ '' '' @ natStr (existingCount + 1) else d_label def);
          newBlock = (createDefaultBlockState defs now rnd ty [])\<lparr>customLabel := Some customLabel'\<rparr>;
          updatedBlocks =
            (if singleActiveInstance def
             then map (\<lambda>b. if b_type b = ty \<and> isActive b then b\<lparr>isActive := False\<rparr> else b) globals
             else globals)
      in updatedBlocks @ [newBlock])"

subsection \<open>The effective blocks of the editor\<close>

text \<open>
  The memo \<open>effectiveBlocks\<close>: a global block is tagged \<open>isGlobal: true\<close>, a local
  block carries no tag.
\<close>

definition effectiveBlocks ::
  "(BlockType \<Rightarrow> BlockDefinition) \<Rightarrow> BlockState list \<Rightarrow> BlockState list \<Rightarrow> bool
     \<Rightarrow> (BlockState \<times> bool option) list" where
  "effectiveBlocks defs blcks globals useBaseStyle =
     (if useBaseStyle \<and> length globals > 0 then
        let localTypes = set (map b_type blcks);
            relevantGlobals =
              filter (\<lambda>gb. if singleActiveInstance (defs (b_type (fst gb))) \<and> b_type (fst gb) \<in> localTypes
                           then False else True)
                (map (\<lambda>gb. (gb, Some True)) globals)
        in relevantGlobals @ map (\<lambda>b. (b, None)) blcks
      else map (\<lambda>b. (b, None)) blcks)"


section \<open>The controls of a block\<close>





section \<open>Smart labels and the change summary\<close>











section \<open>Relations and sample data for the properties\<close>

text \<open>What the import makes of one raw block of a recognised type.\<close>

definition importOf :: "(BlockType \<Rightarrow> BlockDefinition) \<Rightarrow> BlockState \<Rightarrow> jsval \<Rightarrow> bool" where
  "importOf defs b rb \<longleftrightarrow>
     optProp rb ''type'' = JStr (blockTypeName (b_type b)) \<and> isActive b \<and>
     sections b = safeSections rb (Some (defs (b_type b)))"

text \<open>
  Sample data. \<open>intNumStr\<close> prints the non-negative integers, the only numbers the
  samples print. \<open>rawMistyped\<close> is a block as the AI service may return it: a number
  where the schema has a select, \<open>null\<close> for a text, a string for a toggle and for a
  slider, a field and a section the schema does not have.
\<close>

definition intNumStr :: "real \<Rightarrow> string" where
  "intNumStr r = natStr (nat (floor r))"

definition rawMistyped :: jsval where
  "rawMistyped =
     JObj [(''type'', JStr ''Background & Atmosphere''),
           (''sections'', JObj
              [(''setting'', JObj [(''fields'', JObj [(''type'', JNum 5), (''environment'', JNull),
                                                      (''altitude'', JStr ''high'')])]),
               (''weather'', JObj [(''enabled'', JStr ''yes''),
                                   (''fields'', JObj [(''intensity'', JStr ''strong'')])]),
               (''skyline'', JObj [(''fields'', JObj [(''towers'', JNum 3)])])])]"

definition rawPlain :: "string \<Rightarrow> string \<Rightarrow> jsval" where
  "rawPlain i ty = JObj [(''id'', JStr i), (''type'', JStr ty)]"

definition importedMistyped :: BlockState where
  "importedMistyped =
     \<lparr>b_id = ''generated-1700000000000-1'', b_type = BACKGROUND, customLabel = None,
      isActive = True,
      sections =
        [(''setting'',
          \<lparr>enabled = JUndefined,
           st_fields = [(''type'', JNum 5), (''environment'', JStr []), (''time'', JStr ''Day'')]\<rparr>),
         (''weather'',
          \<lparr>enabled = JStr ''yes'',
           st_fields = [(''precip_type'', JStr ''None''), (''intensity'', JStr ''strong''),
                        (''wetness'', JNum 50)]\<rparr>),
         (''fog'',
          \<lparr>enabled = JBool False,
           st_fields = [(''density'', JNum 30), (''color'', JStr ''#a1a1aa'')]\<rparr>),
         (''transparency'',
          \<lparr>enabled = JBool False, st_fields = [(''remove_bg'', JBool False)]\<rparr>)],
      customValues = None, referenceImage = None\<rparr>"

definition importedPlain :: "string \<Rightarrow> BlockState" where
  "importedPlain i =
     \<lparr>b_id = i, b_type = BACKGROUND, customLabel = None, isActive = True,
      sections = defaultSections BACKGROUND_DEFINITION, customValues = None, referenceImage = None\<rparr>"

text \<open>
  A block as \<open>addBlock\<close> creates it, with a given id and activity, and the two global
  Background blocks that two calls of \<open>addGlobalBlock\<close> leave in an empty project.
\<close>

definition sampleBlock :: "string \<Rightarrow> BlockType \<Rightarrow> bool \<Rightarrow> BlockState" where
  "sampleBlock i t a =
     \<lparr>b_id = i, b_type = t, customLabel = Some (d_label (BLOCK_DEFINITIONS t) @ '' 1''),
      isActive = a, sections = defaultSections (BLOCK_DEFINITIONS t), customValues = None,
      referenceImage = None\<rparr>"

definition twoGlobalBackgrounds :: "BlockState list" where
  "twoGlobalBackgrounds =
     addGlobalBlock BLOCK_DEFINITIONS 1700000000001 ''k3v9x2a1q''
       (addGlobalBlock BLOCK_DEFINITIONS 1700000000000 ''p0z8m4c7e'' [] BACKGROUND) BACKGROUND"












text \<open>
  The single-active-instance rule on one list of blocks: of every type that allows a
  single active instance, at most one block is active.
\<close>

definition singleActiveOK :: "(BlockType \<Rightarrow> BlockDefinition) \<Rightarrow> BlockState list \<Rightarrow> bool" where
  "singleActiveOK defs bs \<longleftrightarrow>
     list_all (\<lambda>t. singleActiveInstance (defs t) \<longrightarrow>
                    length (filter (\<lambda>b. b_type b = t \<and> isActive b) bs) \<le> 1) allBlockTypes"

text \<open>
  The operations of the editor on its blocks, with the timestamp that names a new block,
  and a run of them. The editor hands \<open>duplicateBlock\<close> and \<open>toggleBlockActive\<close>
  a block of the list it displays.
\<close>

datatype EditorOp = OpAdd nat BlockType | OpDuplicate nat BlockState | OpToggle BlockState

fun applyOp :: "(BlockType \<Rightarrow> BlockDefinition) \<Rightarrow> EditorState \<Rightarrow> EditorOp \<Rightarrow> EditorState" where
  "applyOp defs st (OpAdd now ty) = addBlock defs now st ty"
| "applyOp defs st (OpDuplicate now block) = duplicateBlock defs now st block"
| "applyOp defs st (OpToggle block) = toggleBlockActive defs st block"

fun opValid :: "EditorState \<Rightarrow> EditorOp \<Rightarrow> bool" where
  "opValid st (OpAdd now ty) = (''block-'' @ natStr now \<notin> set (map b_id (blocks st)))"
| "opValid st (OpDuplicate now block) =
     (block \<in> set (blocks st) \<and> ''block-'' @ natStr now \<notin> set (map b_id (blocks st)))"
| "opValid st (OpToggle block) =
     (block \<in> set (blocks st) \<or> (\<exists>gb \<in> set (globalBlocks st). b_id gb = b_id block))"

fun runOps :: "(BlockType \<Rightarrow> BlockDefinition) \<Rightarrow> EditorState \<Rightarrow> EditorOp list \<Rightarrow> EditorState" where
  "runOps defs st [] = st"
| "runOps defs st (op # ops) = runOps defs (applyOp defs st op) ops"

fun validRun :: "(BlockType \<Rightarrow> BlockDefinition) \<Rightarrow> EditorState \<Rightarrow> EditorOp list \<Rightarrow> bool" where
  "validRun defs st [] = True"
| "validRun defs st (op # ops) = (opValid st op \<and> validRun defs (applyOp defs st op) ops)"

text \<open>
  The incoming blocks on which the import throws: \<open>null\<close> and \<open>undefined\<close>, a block
  whose \<open>type\<close> names a member of \<open>Object.prototype\<close>, and a block whose \<open>id\<close>
  is truthy and not a string.
\<close>

definition importThrows :: "(real \<Rightarrow> string) \<Rightarrow> jsval \<Rightarrow> bool" where
  "importThrows numStr rb \<longleftrightarrow>
     rb = JUndefined \<or> rb = JNull
     \<or> toStr numStr (optProp rb ''type'') \<in> set objectPrototypeKeys
     \<or> (truthy (optProp rb ''id'') \<and> (case optProp rb ''id'' of JStr s \<Rightarrow> False | _ \<Rightarrow> True))"




section \<open>Properties of the Labs canvas\<close>

lemma last_pointerPath:
  "ds \<noteq> [] \<Longrightarrow> last (pointerPath (px, py) ds) =
     \<lparr>clientX = px + sum_list (map fst ds), clientY = py + sum_list (map snd ds)\<rparr>"
proof (induction ds arbitrary: px py)
  case Nil then show ?case by simp
next
  case (Cons a ds)
  obtain dx dy where a: "a = (dx, dy)" by (cases a)
  show ?case
  proof (cases "ds = []")
    case True then show ?thesis by (simp add: a)
  next
    case False
    have ne: "pointerPath (px + dx, py + dy) ds \<noteq> []" using False by (cases ds) auto
    show ?thesis using Cons.IH[OF False, of "px + dx" "py + dy"] ne by (simp add: a add.assoc)
  qed
qed

lemma pointerPath_Nil_iff: "pointerPath p ds = [] \<longleftrightarrow> ds = []"
  by (cases p; cases ds) auto

lemma handle_move:
  assumes "initialOverlayState d = Some init" "rect_width rect \<noteq> 0" "rect_height rect \<noteq> 0"
    "dragMode d = DragMove"
  shows "handlePointerMove d (Some rect) True state e =
     Changed (state\<lparr>overlays := map (\<lambda>ov. if ov_id ov = ov_id init
        then ov\<lparr>ov_x := max 0 (min 100 (ov_x init + (clientX e - pt_x (dragStart d)) / rect_width rect * 100)),
                ov_y := max 0 (min 100 (ov_y init + (clientY e - pt_y (dragStart d)) / rect_height rect * 100))\<rparr>
        else ov) (overlays state)\<rparr>)"
  using assms by (simp add: handlePointerMove_def Let_def)

lemma handle_resize:
  assumes "initialOverlayState d = Some init" "dragMode d = DragResize"
  shows "handlePointerMove d (Some rect) True state e =
     Changed (state\<lparr>overlays := map (\<lambda>ov. if ov_id ov = ov_id init
        then ov\<lparr>ov_size := max 10 (min 300 (ov_size init +
                 ((clientX e - pt_x (dragStart d)) + (clientY e - pt_y (dragStart d))) / 2 * 0.5))\<rparr>
        else ov) (overlays state)\<rparr>)"
  using assms by (simp add: handlePointerMove_def Let_def)

lemma pointerMoves_move:
  assumes "initialOverlayState d = Some init" "rect_width rect \<noteq> 0" "rect_height rect \<noteq> 0"
    "dragMode d = DragMove" "es \<noteq> []"
  shows "pointerMoves d (Some rect) True state es =
     state\<lparr>overlays := map (\<lambda>ov. if ov_id ov = ov_id init
        then ov\<lparr>ov_x := max 0 (min 100 (ov_x init + (clientX (last es) - pt_x (dragStart d)) / rect_width rect * 100)),
                ov_y := max 0 (min 100 (ov_y init + (clientY (last es) - pt_y (dragStart d)) / rect_height rect * 100))\<rparr>
        else ov) (overlays state)\<rparr>"
  using assms(5)
proof (induction es arbitrary: state)
  case Nil then show ?case by simp
next
  case (Cons e es)
  show ?case
  proof (cases "es = []")
    case True
    then show ?thesis by (simp add: handle_move[OF assms(1-4)])
  next
    case False
    show ?thesis using Cons.IH[OF False] False
      by (simp add: handle_move[OF assms(1-4)] comp_def cong: map_cong)
  qed
qed

lemma pointerMoves_resize:
  assumes "initialOverlayState d = Some init" "dragMode d = DragResize" "es \<noteq> []"
  shows "pointerMoves d (Some rect) True state es =
     state\<lparr>overlays := map (\<lambda>ov. if ov_id ov = ov_id init
        then ov\<lparr>ov_size := max 10 (min 300 (ov_size init +
                 ((clientX (last es) - pt_x (dragStart d)) + (clientY (last es) - pt_y (dragStart d))) / 2 * 0.5))\<rparr>
        else ov) (overlays state)\<rparr>"
  using assms(3)
proof (induction es arbitrary: state)
  case Nil then show ?case by simp
next
  case (Cons e es)
  show ?case
  proof (cases "es = []")
    case True
    then show ?thesis by (simp add: handle_resize[OF assms(1-2)])
  next
    case False
    show ?thesis using Cons.IH[OF False] False
      by (simp add: handle_resize[OF assms(1-2)] comp_def cong: map_cong)
  qed
qed

text \<open>
  Claim C7. While a move drag is in progress, a pointer-move sets the position of the
  dragged overlay to the position it had at pointer-down plus the pointer's distance from
  the pointer-down point, as a percentage of the canvas box, clamped to \<open>[0, 100]\<close> on
  each axis; after any non-empty sequence of incremental moves the position is the clamped
  start position plus the total delta. While a resize drag is in progress, the size is the
  size at pointer-down plus \<open>(dx + dy) / 2 * 0.5\<close>, clamped to \<open>[10, 300]\<close>. Every
  overlay with another id is left as it is, and so are the filters and the transform.
\<close>

theorem drag_move_and_resize:
  assumes "initialOverlayState d = Some init"
    and "dragStart d = \<lparr>pt_x = sx, pt_y = sy\<rparr>"
    and "0 < rect_width rect" and "0 < rect_height rect" and "ds \<noteq> []"
  shows
   "(dragMode d = DragMove \<longrightarrow>
       handlePointerMove d (Some rect) True state e =
         Changed (state\<lparr>overlays := map (\<lambda>ov. if ov_id ov = ov_id init
            then ov\<lparr>ov_x := max 0 (min 100 (ov_x init + (clientX e - sx) / rect_width rect * 100)),
                    ov_y := max 0 (min 100 (ov_y init + (clientY e - sy) / rect_height rect * 100))\<rparr>
            else ov) (overlays state)\<rparr>)
     \<and> pointerMoves d (Some rect) True state (pointerPath (sx, sy) ds) =
         state\<lparr>overlays := map (\<lambda>ov. if ov_id ov = ov_id init
            then ov\<lparr>ov_x := max 0 (min 100 (ov_x init + sum_list (map fst ds) / rect_width rect * 100)),
                    ov_y := max 0 (min 100 (ov_y init + sum_list (map snd ds) / rect_height rect * 100))\<rparr>
            else ov) (overlays state)\<rparr>)
    \<and> (dragMode d = DragResize \<longrightarrow>
       handlePointerMove d (Some rect) True state e =
         Changed (state\<lparr>overlays := map (\<lambda>ov. if ov_id ov = ov_id init
            then ov\<lparr>ov_size := max 10 (min 300 (ov_size init + ((clientX e - sx) + (clientY e - sy)) / 2 * 0.5))\<rparr>
            else ov) (overlays state)\<rparr>))"
proof -
  have w: "rect_width rect \<noteq> 0" and h: "rect_height rect \<noteq> 0" using assms by auto
  have ne: "pointerPath (sx, sy) ds \<noteq> []" using assms(5) by (simp add: pointerPath_Nil_iff)
  have mv: "dragMode d = DragMove \<Longrightarrow> ?thesis"
    using handle_move[OF assms(1) w h, of state e]
      pointerMoves_move[OF assms(1) w h _ ne, of state]
    by (simp add: assms(2) last_pointerPath[OF assms(5)])
  have rs: "dragMode d = DragResize \<Longrightarrow> ?thesis"
    using handle_resize[OF assms(1), of rect state e] by (simp add: assms(2))
  show ?thesis using mv rs by (cases "dragMode d") auto
qed

text \<open>
  The scenario of the specification: an overlay at (50, 50) on a canvas box of 1000 by 800
  pixels, dragged by three moves that add up to (100, 40) pixels, ends at (60, 55); a move
  that overshoots the right edge stops at 100; a resize by (40, 20) pixels adds 15.
\<close>

theorem drag_move_and_resize_witness:
  "pointerMoves
      \<lparr>dragMode = DragMove, dragStart = \<lparr>pt_x = 100, pt_y = 100\<rparr>,
       initialOverlayState = Some (sampleOverlay ''t1'' 50 50 40)\<rparr>
      (Some \<lparr>rect_width = 1000, rect_height = 800\<rparr>) True
      (sampleLabs [sampleOverlay ''t1'' 50 50 40, sampleOverlay ''t2'' 10 90 24])
      (pointerPath (100, 100) [(30, 10), (30, 10), (40, 20)])
    = sampleLabs [sampleOverlay ''t1'' 60 55 40, sampleOverlay ''t2'' 10 90 24]
   \<and> handlePointerMove
      \<lparr>dragMode = DragMove, dragStart = \<lparr>pt_x = 100, pt_y = 100\<rparr>,
       initialOverlayState = Some (sampleOverlay ''t1'' 50 50 40)\<rparr>
      (Some \<lparr>rect_width = 1000, rect_height = 800\<rparr>) True
      (sampleLabs [sampleOverlay ''t1'' 50 50 40, sampleOverlay ''t2'' 10 90 24])
      \<lparr>clientX = 900, clientY = 20\<rparr>
    = Changed (sampleLabs [sampleOverlay ''t1'' 100 40 40, sampleOverlay ''t2'' 10 90 24])
   \<and> handlePointerMove
      \<lparr>dragMode = DragResize, dragStart = \<lparr>pt_x = 100, pt_y = 100\<rparr>,
       initialOverlayState = Some (sampleOverlay ''t1'' 50 50 40)\<rparr>
      (Some \<lparr>rect_width = 1000, rect_height = 800\<rparr>) True
      (sampleLabs [sampleOverlay ''t1'' 50 50 40, sampleOverlay ''t2'' 10 90 24])
      \<lparr>clientX = 140, clientY = 120\<rparr>
    = Changed (sampleLabs [sampleOverlay ''t1'' 50 50 55, sampleOverlay ''t2'' 10 90 24])"
  using drag_move_and_resize [of
      "\<lparr>dragMode = DragMove, dragStart = \<lparr>pt_x = 100, pt_y = 100\<rparr>,
        initialOverlayState = Some (sampleOverlay ''t1'' 50 50 40)\<rparr>"
      "sampleOverlay ''t1'' 50 50 40" 100 100 "\<lparr>rect_width = 1000, rect_height = 800\<rparr>"
      "[(30, 10), (30, 10), (40, 20)]"
      "sampleLabs [sampleOverlay ''t1'' 50 50 40, sampleOverlay ''t2'' 10 90 24]"
      "\<lparr>clientX = 900, clientY = 20\<rparr>"]
    drag_move_and_resize [of
      "\<lparr>dragMode = DragResize, dragStart = \<lparr>pt_x = 100, pt_y = 100\<rparr>,
        initialOverlayState = Some (sampleOverlay ''t1'' 50 50 40)\<rparr>"
      "sampleOverlay ''t1'' 50 50 40" 100 100 "\<lparr>rect_width = 1000, rect_height = 800\<rparr>"
      "[(30, 10)]"
      "sampleLabs [sampleOverlay ''t1'' 50 50 40, sampleOverlay ''t2'' 10 90 24]"
      "\<lparr>clientX = 140, clientY = 120\<rparr>"]
  by (simp add: sampleOverlay_def sampleLabs_def)








section \<open>Where the import and the compiler return\<close>

lemma getProp_Inl_iff: "(\<exists>e. getProp v k = Inl e) \<longleftrightarrow> v = JUndefined \<or> v = JNull"
  by (cases v) auto

lemma getProp_Inr_optProp: "v \<noteq> JUndefined \<Longrightarrow> v \<noteq> JNull \<Longrightarrow> getProp v k = Inr (optProp v k)"
  by (cases v) (auto simp: optProp_def)

lemma prototype_key_not_type: "blockTypeName t \<notin> set objectPrototypeKeys"
  by (cases t) (simp_all add: objectPrototypeKeys_def)

lemma lookupDefinition_Inl_iff:
  "(\<exists>e. lookupDefinition defs numStr ty = Inl e) \<longleftrightarrow> toStr numStr ty \<in> set objectPrototypeKeys"
proof (cases "find (\<lambda>t. blockTypeName t = toStr numStr ty) allBlockTypes")
  case None
  then show ?thesis by (simp add: lookupDefinition_def Let_def)
next
  case (Some t)
  then have "blockTypeName t = toStr numStr ty" by (auto dest: find_Some_iff[THEN iffD1])
  then have "toStr numStr ty \<notin> set objectPrototypeKeys" using prototype_key_not_type[of t] by simp
  then show ?thesis using Some by (simp add: lookupDefinition_def Let_def)
qed

lemma importedId_Inl_iff:
  "(\<exists>e. importedId now idx v = Inl e) \<longleftrightarrow>
     truthy v \<and> (case v of JStr s \<Rightarrow> False | _ \<Rightarrow> True)"
  by (cases v) (auto simp: importedId_def)

lemma sum_cases_Inl: "(\<exists>e. x = Inl e) \<or> (\<exists>y. x = Inr y)"
  by (cases x) auto

lemma parseRawBlock_Inl_iff:
  "(\<exists>e. parseRawBlock defs numStr now (rb, idx) = Inl e) \<longleftrightarrow> importThrows numStr rb"
proof (cases "rb = JUndefined \<or> rb = JNull")
  case True
  then show ?thesis by (auto simp: parseRawBlock_def importThrows_def)
next
  case False
  then have g: "getProp rb ''type'' = Inr (optProp rb ''type'')"
    by (simp add: getProp_Inr_optProp)
  show ?thesis
  proof (cases "lookupDefinition defs numStr (optProp rb ''type'')")
    case (Inl e)
    then have "toStr numStr (optProp rb ''type'') \<in> set objectPrototypeKeys"
      using lookupDefinition_Inl_iff by blast
    then show ?thesis using Inl g by (simp add: parseRawBlock_def importThrows_def)
  next
    case (Inr d)
    then have n: "toStr numStr (optProp rb ''type'') \<notin> set objectPrototypeKeys"
      using lookupDefinition_Inl_iff[of defs numStr "optProp rb ''type''"] by auto
    show ?thesis
    proof (cases "importedId now idx (optProp rb ''id'')")
      case (Inl e)
      then have "truthy (optProp rb ''id'') \<and> (case optProp rb ''id'' of JStr s \<Rightarrow> False | _ \<Rightarrow> True)"
        using importedId_Inl_iff by blast
      then show ?thesis using Inl Inr g by (simp add: parseRawBlock_def importThrows_def)
    next
      case (Inr i)
      then have "\<not> (truthy (optProp rb ''id'') \<and> (case optProp rb ''id'' of JStr s \<Rightarrow> False | _ \<Rightarrow> True))"
        using importedId_Inl_iff[of now idx "optProp rb ''id''"] by auto
      then show ?thesis using Inr \<open>lookupDefinition defs numStr (optProp rb ''type'') = Inr d\<close> g n False
        by (simp add: parseRawBlock_def importThrows_def)
    qed
  qed
qed

lemma mapE_returns_iff:
  "(\<exists>ys. mapE f xs = Inr ys) \<longleftrightarrow> (\<forall>x \<in> set xs. \<exists>y. f x = Inr y)"
proof (induction xs)
  case Nil then show ?case by simp
next
  case (Cons x xs)
  show ?case
  proof (cases "f x")
    case (Inl e) then show ?thesis by auto
  next
    case (Inr y)
    then show ?thesis using Cons.IH by (cases "mapE f xs") auto
  qed
qed

text \<open>
  The import returns exactly when it throws on none of the incoming blocks.
\<close>

lemma import_returns_iff:
  "(\<exists>bs. parseRawBlocksToState defs numStr now rawBlocks = Inr bs)
     \<longleftrightarrow> (\<forall>rb \<in> set rawBlocks. \<not> importThrows numStr rb)"
proof -
  have "(\<exists>bs. parseRawBlocksToState defs numStr now rawBlocks = Inr bs)
        \<longleftrightarrow> (\<exists>ps. mapE (parseRawBlock defs numStr now) (zip rawBlocks [0..<length rawBlocks]) = Inr ps)"
    by (auto simp: parseRawBlocksToState_def split: sum.splits)
  also have "\<dots> \<longleftrightarrow> (\<forall>p \<in> set (zip rawBlocks [0..<length rawBlocks]).
                          \<exists>y. parseRawBlock defs numStr now p = Inr y)"
    by (rule mapE_returns_iff)
  also have "\<dots> \<longleftrightarrow> (\<forall>p \<in> set (zip rawBlocks [0..<length rawBlocks]). \<not> importThrows numStr (fst p))"
  proof (rule ball_cong[OF refl])
    fix p assume "p \<in> set (zip rawBlocks [0..<length rawBlocks])"
    obtain rb idx where p: "p = (rb, idx)" by (cases p)
    show "(\<exists>y. parseRawBlock defs numStr now p = Inr y) \<longleftrightarrow> \<not> importThrows numStr (fst p)"
      using parseRawBlock_Inl_iff[of defs numStr now rb idx]
        sum_cases_Inl[of "parseRawBlock defs numStr now (rb, idx)"]
      by (auto simp: p)
  qed
  also have "\<dots> \<longleftrightarrow> (\<forall>rb \<in> set rawBlocks. \<not> importThrows numStr rb)"
  proof -
    have "fst ` set (zip rawBlocks [0..<length rawBlocks]) = set rawBlocks"
      by (metis length_upt map_fst_zip minus_nat.diff_0 set_map)
    then show ?thesis by (metis (no_types, lifting) image_iff imageI)
  qed
  finally show ?thesis .
qed








section \<open>Properties of the import\<close>


lemma mapE_all_Inr: "list_all2 (\<lambda>x y. f x = Inr y) xs ys \<Longrightarrow> mapE f xs = Inr ys"
  by (induction xs ys rule: list_all2_induct) auto

lemma objSet_fresh: "k \<notin> fst ` set kvs \<Longrightarrow> objSet kvs k v = kvs @ [(k, v)]"
  by (induction kvs) auto

lemma foldl_objSet_distinct:
  "distinct (map key xs) \<Longrightarrow> key ` set xs \<inter> fst ` set init = {} \<Longrightarrow>
   foldl (\<lambda>acc x. objSet acc (key x) (val x)) init xs = init @ map (\<lambda>x. (key x, val x)) xs"
proof (induction xs arbitrary: init)
  case Nil then show ?case by simp
next
  case (Cons x xs)
  have fresh: "key x \<notin> fst ` set init" using Cons.prems(2) by auto
  have d: "distinct (map key xs)" using Cons.prems(1) by simp
  have disj: "key ` set xs \<inter> fst ` set (init @ [(key x, val x)]) = {}"
    using Cons.prems by auto
  show ?case using Cons.IH[OF d disj] by (simp add: objSet_fresh[OF fresh])
qed

lemma blockTypeName_inj: "blockTypeName a = blockTypeName b \<Longrightarrow> a = b"
  by (cases a; cases b) simp_all

lemma blockTypeOf_iff: "blockTypeOf v = Some t \<longleftrightarrow> v = JStr (blockTypeName t)"
proof
  assume "blockTypeOf v = Some t"
  then show "v = JStr (blockTypeName t)"
    unfolding blockTypeOf_def by (auto dest: find_Some_iff[THEN iffD1])
next
  assume v: "v = JStr (blockTypeName t)"
  have "t \<in> set allBlockTypes" by (cases t) (simp_all add: allBlockTypes_def)
  then obtain t' where f: "find (\<lambda>u. v = JStr (blockTypeName u)) allBlockTypes = Some t'"
    using v by (cases "find (\<lambda>u. v = JStr (blockTypeName u)) allBlockTypes") (auto simp: find_None_iff)
  then have "v = JStr (blockTypeName t')" by (auto dest: find_Some_iff[THEN iffD1])
  then have "t' = t" using v blockTypeName_inj by simp
  then show "blockTypeOf v = Some t" using f by (simp add: blockTypeOf_def)
qed

lemma blockTypeOf_None_iff: "blockTypeOf v = None \<longleftrightarrow> (\<forall>t. v \<noteq> JStr (blockTypeName t))"
  using blockTypeOf_iff[of v] by (cases "blockTypeOf v") auto

lemma safeSection_distinct:
  assumes "distinct (map f_id (s_fields secDef))"
  shows "safeSection rb secDef =
     \<lparr>enabled = (if toggleable secDef
                  then orElse (optProp (optProp (optProp rb ''sections'') (s_id secDef)) ''enabled'') (JBool False)
                  else JUndefined),
      st_fields = map (\<lambda>f. (f_id f,
                     orElse (optProp (optProp (optProp (optProp rb ''sections'') (s_id secDef)) ''fields'') (f_id f))
                       (defaultValue f))) (s_fields secDef)\<rparr>"
  using foldl_objSet_distinct[OF assms, of "[]"]
  by (simp add: safeSection_def Let_def)

lemma safeSections_distinct:
  assumes "distinct (map s_id (d_sections d))"
  shows "safeSections rb (Some d) = map (\<lambda>sd. (s_id sd, safeSection rb sd)) (d_sections d)"
  using foldl_objSet_distinct[OF assms, of "[]"]
  by (simp add: safeSections_def)

lemma find_blockTypeName: "find (\<lambda>u. blockTypeName u = blockTypeName t) allBlockTypes = Some t"
proof -
  have "t \<in> set allBlockTypes" by (cases t) (simp_all add: allBlockTypes_def)
  then obtain t' where f: "find (\<lambda>u. blockTypeName u = blockTypeName t) allBlockTypes = Some t'"
    by (cases "find (\<lambda>u. blockTypeName u = blockTypeName t) allBlockTypes") (auto simp: find_None_iff)
  then have "blockTypeName t' = blockTypeName t" by (auto dest: find_Some_iff[THEN iffD1])
  then show ?thesis using f blockTypeName_inj by auto
qed

lemma lookupDefinition_known:
  "lookupDefinition defs numStr (JStr (blockTypeName t)) = Inr (Some (defs t))"
  by (simp add: lookupDefinition_def Let_def find_blockTypeName)

lemma getProp_optProp: "getProp v k = Inr x \<Longrightarrow> optProp v k = x"
  by (simp add: optProp_def)

lemma parse_step:
  assumes "parseRawBlock defs numStr now (rb, idx) = Inr (ty, i, secs)"
  shows "optProp rb ''type'' = ty \<and>
         (\<forall>t. ty = JStr (blockTypeName t) \<longrightarrow> secs = safeSections rb (Some (defs t)))"
  using assms
  by (auto simp: parseRawBlock_def lookupDefinition_known getProp_optProp split: sum.splits)

lemma parse_zip:
  assumes "mapE (parseRawBlock defs numStr now) (zip raws idxs) = Inr parsed"
    and "length idxs = length raws"
  shows "list_all2 (importOf defs)
           (concat (map (\<lambda>(ty, i, secs).
                 case blockTypeOf ty of
                   None \<Rightarrow> []
                 | Some t \<Rightarrow>
                     [\<lparr>b_id = i, b_type = t, customLabel = None, isActive = True, sections = secs,
                       customValues = None, referenceImage = None\<rparr>]) parsed))
           (filter (\<lambda>rb. blockTypeOf (optProp rb ''type'') \<noteq> None) raws)"
  using assms
proof (induction raws arbitrary: idxs parsed)
  case Nil
  then show ?case by simp
next
  case (Cons rb raws)
  obtain idx idxs' where idxs: "idxs = idx # idxs'" using Cons.prems(2) by (cases idxs) auto
  obtain p ps where p: "parseRawBlock defs numStr now (rb, idx) = Inr p"
    and ps: "mapE (parseRawBlock defs numStr now) (zip raws idxs') = Inr ps"
    and parsed: "parsed = p # ps"
    using Cons.prems(1) by (auto simp: idxs split: sum.splits)
  obtain ty i secs where pt: "p = (ty, i, secs)" by (cases p) auto
  have len: "length idxs' = length raws" using Cons.prems(2) idxs by simp
  note IH = Cons.IH[OF ps len]
  have st: "optProp rb ''type'' = ty"
    and ss: "\<And>t. ty = JStr (blockTypeName t) \<Longrightarrow> secs = safeSections rb (Some (defs t))"
    using parse_step[OF p[unfolded pt]] by auto
  show ?case
  proof (cases "blockTypeOf ty")
    case None
    then show ?thesis using IH by (simp add: parsed pt st)
  next
    case (Some t)
    then have ty: "ty = JStr (blockTypeName t)" by (simp add: blockTypeOf_iff)
    show ?thesis using IH Some ss[OF ty]
      by (simp add: parsed pt st importOf_def ty[symmetric])
  qed
qed

lemma parse_structure:
  assumes "parseRawBlocksToState defs numStr now rawBlocks = Inr bs"
  shows "list_all2 (importOf defs) bs
           (filter (\<lambda>rb. blockTypeOf (optProp rb ''type'') \<noteq> None) rawBlocks)"
proof -
  obtain parsed where m: "mapE (parseRawBlock defs numStr now) (zip rawBlocks [0..<length rawBlocks]) = Inr parsed"
    and bs: "bs = concat (map (\<lambda>(ty, i, secs).
                 case blockTypeOf ty of
                   None \<Rightarrow> []
                 | Some t \<Rightarrow>
                     [\<lparr>b_id = i, b_type = t, customLabel = None, isActive = True, sections = secs,
                       customValues = None, referenceImage = None\<rparr>]) parsed)"
    using assms by (auto simp: parseRawBlocksToState_def split: sum.splits)
  show ?thesis unfolding bs by (rule parse_zip[OF m]) simp
qed

lemma list_all2_filter_length:
  assumes "list_all2 R xs ys" and "\<And>x y. R x y \<Longrightarrow> P x \<longleftrightarrow> Q y"
  shows "length (filter P xs) = length (filter Q ys)"
  using assms by (induction xs ys rule: list_all2_induct) auto

lemma natStr_now: "natStr 1700000000000 = ''1700000000000''"
  by (simp add: natStr.simps)

lemma natStr_small: "natStr 0 = ''0''" "natStr (Suc 0) = ''1''" "natStr 2 = ''2''" "natStr 3 = ''3''"
  by (simp_all add: natStr.simps)

lemmas import_eval =
  parseRawBlocksToState_def parseRawBlock_def rawPlain_def rawMistyped_def
  lookupDefinition_def allBlockTypes_def objectPrototypeKeys_def importedId_def startsWith_def
  optProp_def lookupVal_def natStr_now natStr_small blockTypeOf_def safeSections_def
  safeSection_def orElse_def nullish_def BACKGROUND_DEFINITION_def upt_conv_Cons Let_def

lemma BLOCK_DEFINITIONS_distinct_sections:
  "distinct (map s_id (d_sections (BLOCK_DEFINITIONS t)))"
  by (cases t)
     (simp_all add: SUBJECT_DEFINITION_def BACKGROUND_DEFINITION_def LIGHTING_DEFINITION_def
        MOOD_DEFINITION_def CAMERA_DEFINITION_def STYLE_DEFINITION_def
        POST_PROCESSING_DEFINITION_def FX_DEFINITION_def)

lemma BLOCK_DEFINITIONS_distinct_fields:
  "s \<in> set (d_sections (BLOCK_DEFINITIONS t)) \<Longrightarrow> distinct (map f_id (s_fields s))"
  by (cases t)
     (auto simp: SUBJECT_DEFINITION_def BACKGROUND_DEFINITION_def LIGHTING_DEFINITION_def
        MOOD_DEFINITION_def CAMERA_DEFINITION_def STYLE_DEFINITION_def
        POST_PROCESSING_DEFINITION_def FX_DEFINITION_def)

lemma import_structure:
  assumes "parseRawBlocksToState defs numStr now rawBlocks = Inr bs"
    and "\<forall>t. distinct (map s_id (d_sections (defs t)))"
    and "\<forall>t. \<forall>s \<in> set (d_sections (defs t)). distinct (map f_id (s_fields s))"
  shows "list_all2
           (\<lambda>b rb.
              optProp rb ''type'' = JStr (blockTypeName (b_type b)) \<and>
              sections b =
                map (\<lambda>secDef.
                       (s_id secDef,
                        \<lparr>enabled =
                           (if toggleable secDef
                            then (if optProp (optProp (optProp rb ''sections'') (s_id secDef)) ''enabled''
                                       \<in> {JUndefined, JNull}
                                  then JBool False
                                  else optProp (optProp (optProp rb ''sections'') (s_id secDef)) ''enabled'')
                            else JUndefined),
                         st_fields =
                           map (\<lambda>f.
                                  (f_id f,
                                   if optProp (optProp (optProp (optProp rb ''sections'') (s_id secDef))
                                                 ''fields'') (f_id f) \<in> {JUndefined, JNull}
                                   then defaultValue f
                                   else optProp (optProp (optProp (optProp rb ''sections'') (s_id secDef))
                                                   ''fields'') (f_id f)))
                             (s_fields secDef)\<rparr>))
                  (d_sections (defs (b_type b))))
           bs (filter (\<lambda>rb. blockTypeOf (optProp rb ''type'') \<noteq> None) rawBlocks)"
proof -
  have "list_all2 (importOf defs) bs
          (filter (\<lambda>rb. blockTypeOf (optProp rb ''type'') \<noteq> None) rawBlocks)"
    by (rule parse_structure[OF assms(1)])
  then show ?thesis
  proof (rule list_all2_mono)
    fix b rb
    assume imp: "importOf defs b rb"
    have secs: "sections b = map (\<lambda>sd. (s_id sd, safeSection rb sd)) (d_sections (defs (b_type b)))"
      using imp assms(2) by (simp add: importOf_def safeSections_distinct)
    have "map (\<lambda>sd. (s_id sd, safeSection rb sd)) (d_sections (defs (b_type b))) =
          map (\<lambda>secDef.
                       (s_id secDef,
                        \<lparr>enabled =
                           (if toggleable secDef
                            then (if optProp (optProp (optProp rb ''sections'') (s_id secDef)) ''enabled''
                                       \<in> {JUndefined, JNull}
                                  then JBool False
                                  else optProp (optProp (optProp rb ''sections'') (s_id secDef)) ''enabled'')
                            else JUndefined),
                         st_fields =
                           map (\<lambda>f.
                                  (f_id f,
                                   if optProp (optProp (optProp (optProp rb ''sections'') (s_id secDef))
                                                 ''fields'') (f_id f) \<in> {JUndefined, JNull}
                                   then defaultValue f
                                   else optProp (optProp (optProp (optProp rb ''sections'') (s_id secDef))
                                                   ''fields'') (f_id f)))
                             (s_fields secDef)\<rparr>))
                  (d_sections (defs (b_type b)))"
      using assms(3) by (intro map_cong refl) (simp add: safeSection_distinct orElse_def nullish_def)
    with secs imp
    show "optProp rb ''type'' = JStr (blockTypeName (b_type b)) \<and>
              sections b =
                map (\<lambda>secDef.
                       (s_id secDef,
                        \<lparr>enabled =
                           (if toggleable secDef
                            then (if optProp (optProp (optProp rb ''sections'') (s_id secDef)) ''enabled''
                                       \<in> {JUndefined, JNull}
                                  then JBool False
                                  else optProp (optProp (optProp rb ''sections'') (s_id secDef)) ''enabled'')
                            else JUndefined),
                         st_fields =
                           map (\<lambda>f.
                                  (f_id f,
                                   if optProp (optProp (optProp (optProp rb ''sections'') (s_id secDef))
                                                 ''fields'') (f_id f) \<in> {JUndefined, JNull}
                                   then defaultValue f
                                   else optProp (optProp (optProp (optProp rb ''sections'') (s_id secDef))
                                                   ''fields'') (f_id f)))
                             (s_fields secDef)\<rparr>))
                  (d_sections (defs (b_type b)))"
      by (simp add: importOf_def)
  qed
qed

lemma import_mistyped_eval:
  "parseRawBlocksToState BLOCK_DEFINITIONS intNumStr 1700000000000 [rawPlain ''x'' ''Weather'', rawMistyped]
     = Inr [importedMistyped]"
  by (simp add: import_eval importedMistyped_def)

text \<open>
  Claim C6, as the code has it. The import returns unless an incoming block is \<open>null\<close>
  or \<open>undefined\<close>, has a \<open>type\<close> that names a member of \<open>Object.prototype\<close>,
  or has an \<open>id\<close> that is truthy and not a string. When it returns, its result holds,
  in order, one block for each incoming block whose \<open>type\<close> is a string of the
  \<open>BlockType\<close> enum; every other incoming block is discarded. The sections of a
  result block are exactly the sections of the schema for its type, in the schema's order,
  and the fields of each section are exactly the fields of the schema. A field holds the
  incoming value, whatever its type, unless that value is missing or \<open>null\<close>, in which
  case it holds the schema default; the toggle of a toggleable section is treated the same
  way, with default \<open>false\<close>. Incoming sections and fields that the schema does not
  have are dropped.
\<close>

theorem import_normalizes:
  assumes "\<forall>t. distinct (map s_id (d_sections (defs t)))"
    and "\<forall>t. \<forall>s \<in> set (d_sections (defs t)). distinct (map f_id (s_fields s))"
  shows "((\<exists>bs. parseRawBlocksToState defs numStr now rawBlocks = Inr bs)
            \<longleftrightarrow> (\<forall>rb \<in> set rawBlocks. \<not> importThrows numStr rb))
       \<and> (\<forall>bs. parseRawBlocksToState defs numStr now rawBlocks = Inr bs \<longrightarrow>
           list_all2
           (\<lambda>b rb.
              optProp rb ''type'' = JStr (blockTypeName (b_type b)) \<and>
              sections b =
                map (\<lambda>secDef.
                       (s_id secDef,
                        \<lparr>enabled =
                           (if toggleable secDef
                            then (if optProp (optProp (optProp rb ''sections'') (s_id secDef)) ''enabled''
                                       \<in> {JUndefined, JNull}
                                  then JBool False
                                  else optProp (optProp (optProp rb ''sections'') (s_id secDef)) ''enabled'')
                            else JUndefined),
                         st_fields =
                           map (\<lambda>f.
                                  (f_id f,
                                   if optProp (optProp (optProp (optProp rb ''sections'') (s_id secDef))
                                                 ''fields'') (f_id f) \<in> {JUndefined, JNull}
                                   then defaultValue f
                                   else optProp (optProp (optProp (optProp rb ''sections'') (s_id secDef))
                                                   ''fields'') (f_id f)))
                             (s_fields secDef)\<rparr>))
                  (d_sections (defs (b_type b))))
           bs (filter (\<lambda>rb. blockTypeOf (optProp rb ''type'') \<noteq> None) rawBlocks))"
proof (intro conjI allI impI)
  show "(\<exists>bs. parseRawBlocksToState defs numStr now rawBlocks = Inr bs)
            \<longleftrightarrow> (\<forall>rb \<in> set rawBlocks. \<not> importThrows numStr rb)"
    by (rule import_returns_iff)
next
  fix bs
  assume "parseRawBlocksToState defs numStr now rawBlocks = Inr bs"
  then show "list_all2
           (\<lambda>b rb.
              optProp rb ''type'' = JStr (blockTypeName (b_type b)) \<and>
              sections b =
                map (\<lambda>secDef.
                       (s_id secDef,
                        \<lparr>enabled =
                           (if toggleable secDef
                            then (if optProp (optProp (optProp rb ''sections'') (s_id secDef)) ''enabled''
                                       \<in> {JUndefined, JNull}
                                  then JBool False
                                  else optProp (optProp (optProp rb ''sections'') (s_id secDef)) ''enabled'')
                            else JUndefined),
                         st_fields =
                           map (\<lambda>f.
                                  (f_id f,
                                   if optProp (optProp (optProp (optProp rb ''sections'') (s_id secDef))
                                                 ''fields'') (f_id f) \<in> {JUndefined, JNull}
                                   then defaultValue f
                                   else optProp (optProp (optProp (optProp rb ''sections'') (s_id secDef))
                                                   ''fields'') (f_id f)))
                             (s_fields secDef)\<rparr>))
                  (d_sections (defs (b_type b))))
           bs (filter (\<lambda>rb. blockTypeOf (optProp rb ''type'') \<noteq> None) rawBlocks)"
    by (rule import_structure[OF _ assms])
qed

text \<open>
  The import of \<open>rawMistyped\<close>, after a block of an unknown type: the unknown block is
  discarded, the sections are those of the Background schema, and the \<open>null\<close> and the
  missing field hold their defaults.
\<close>

theorem import_normalizes_witness:
  "parseRawBlocksToState BLOCK_DEFINITIONS intNumStr 1700000000000 [rawPlain ''x'' ''Weather'', rawMistyped]
     = Inr [importedMistyped]
   \<and> \<not> importThrows intNumStr (rawPlain ''x'' ''Weather'')
   \<and> \<not> importThrows intNumStr rawMistyped
   \<and> map fst (sections importedMistyped) = map s_id (d_sections (BLOCK_DEFINITIONS BACKGROUND))
   \<and> getField importedMistyped ''setting'' ''environment'' = JStr []
   \<and> getField importedMistyped ''setting'' ''time'' = JStr ''Day''"
proof -
  have wf1: "\<forall>t. distinct (map s_id (d_sections (BLOCK_DEFINITIONS t)))"
    using BLOCK_DEFINITIONS_distinct_sections by blast
  have wf2: "\<forall>t. \<forall>s \<in> set (d_sections (BLOCK_DEFINITIONS t)). distinct (map f_id (s_fields s))"
    using BLOCK_DEFINITIONS_distinct_fields by blast
  note T = import_normalizes [OF wf1 wf2, of intNumStr 1700000000000
      "[rawPlain ''x'' ''Weather'', rawMistyped]"]
  have "\<not> importThrows intNumStr (rawPlain ''x'' ''Weather'')
     \<and> \<not> importThrows intNumStr rawMistyped"
    using T[THEN conjunct1] import_mistyped_eval by simp
  moreover have "map fst (sections importedMistyped) = map s_id (d_sections (BLOCK_DEFINITIONS BACKGROUND))
     \<and> getField importedMistyped ''setting'' ''environment'' = JStr []
     \<and> getField importedMistyped ''setting'' ''time'' = JStr ''Day''"
    using T[THEN conjunct2, rule_format, OF import_mistyped_eval]
    by (simp add: importedMistyped_def BACKGROUND_DEFINITION_def getField_def lookupVal_def)
  ultimately show ?thesis using import_mistyped_eval by simp
qed

text \<open>
  Claim C6 as stated fails for mistyped values: the number 5 stays in the select
  \<open>type\<close> (default \<open>Outdoor\<close>), the string \<open>strong\<close> in the slider
  \<open>intensity\<close> (default 50), and the string \<open>yes\<close> in the toggle of \<open>weather\<close>.
\<close>

theorem import_mistyped_counterexample:
  "parseRawBlocksToState BLOCK_DEFINITIONS intNumStr 1700000000000 [rawPlain ''x'' ''Weather'', rawMistyped]
     = Inr [importedMistyped]
   \<and> getField importedMistyped ''setting'' ''type'' = JNum 5
   \<and> getField importedMistyped ''weather'' ''intensity'' = JStr ''strong''
   \<and> enabled (the (map_of (sections importedMistyped) ''weather'')) = JStr ''yes''"
  by (simp add: import_eval importedMistyped_def getField_def)

text \<open>
  Claim C10. Every block the import returns is active, and for every block type the result
  holds as many active blocks of the type as the input holds blocks of it: the import
  deactivates nothing, also for a type that allows a single active instance.
\<close>

theorem import_all_active:
  assumes "parseRawBlocksToState defs numStr now rawBlocks = Inr bs"
  shows "(\<forall>b \<in> set bs. isActive b) \<and>
         (\<forall>t. length (filter (\<lambda>b. b_type b = t \<and> isActive b) bs) =
              length (filter (\<lambda>rb. optProp rb ''type'' = JStr (blockTypeName t)) rawBlocks))"
proof -
  have s: "list_all2 (importOf defs) bs
          (filter (\<lambda>rb. blockTypeOf (optProp rb ''type'') \<noteq> None) rawBlocks)"
    by (rule parse_structure[OF assms(1)])
  have act: "\<forall>b \<in> set bs. isActive b"
    using s by (auto simp: list_all2_conv_all_nth in_set_conv_nth importOf_def)
  have cnt: "length (filter (\<lambda>b. b_type b = t \<and> isActive b) bs) =
              length (filter (\<lambda>rb. optProp rb ''type'' = JStr (blockTypeName t)) rawBlocks)" for t
  proof -
    have "length (filter (\<lambda>b. b_type b = t \<and> isActive b) bs) =
          length (filter (\<lambda>rb. optProp rb ''type'' = JStr (blockTypeName t))
                    (filter (\<lambda>rb. blockTypeOf (optProp rb ''type'') \<noteq> None) rawBlocks))"
      by (rule list_all2_filter_length[OF s]) (auto simp: importOf_def dest: blockTypeName_inj)
    also have "\<dots> = length (filter (\<lambda>rb. optProp rb ''type'' = JStr (blockTypeName t)) rawBlocks)"
    proof -
      have "\<And>rb. optProp rb ''type'' = JStr (blockTypeName t) \<Longrightarrow> blockTypeOf (optProp rb ''type'') \<noteq> None"
        by (simp add: blockTypeOf_iff[THEN iffD2])
      then have "filter (\<lambda>rb. optProp rb ''type'' = JStr (blockTypeName t))
                    (filter (\<lambda>rb. blockTypeOf (optProp rb ''type'') \<noteq> None) rawBlocks)
               = filter (\<lambda>rb. optProp rb ''type'' = JStr (blockTypeName t)) rawBlocks"
        by (auto intro: filter_cong)
      then show ?thesis by simp
    qed
    finally show ?thesis .
  qed
  show ?thesis using act cnt by blast
qed

lemma defaultSections_BACKGROUND:
  "defaultSections BACKGROUND_DEFINITION =
     [(''setting'',
       \<lparr>enabled = JUndefined,
        st_fields = [(''type'', JStr ''Outdoor''), (''environment'', JStr []), (''time'', JStr ''Day'')]\<rparr>),
      (''weather'',
       \<lparr>enabled = JBool False,
        st_fields = [(''precip_type'', JStr ''None''), (''intensity'', JNum 50), (''wetness'', JNum 50)]\<rparr>),
      (''fog'',
       \<lparr>enabled = JBool False,
        st_fields = [(''density'', JNum 30), (''color'', JStr ''#a1a1aa'')]\<rparr>),
      (''transparency'',
       \<lparr>enabled = JBool False, st_fields = [(''remove_bg'', JBool False)]\<rparr>)]"
  by (simp add: defaultSections_def BACKGROUND_DEFINITION_def)

lemma import_two_backgrounds_eval:
  "parseRawBlocksToState BLOCK_DEFINITIONS intNumStr 1700000000000
      [rawPlain ''b-1'' ''Background & Atmosphere'', rawPlain ''b-2'' ''Background & Atmosphere'']
     = Inr [importedPlain ''b-1'', importedPlain ''b-2'']"
  by (simp add: import_eval importedPlain_def defaultSections_def)

text \<open>Two incoming Background blocks: both are active after the import.\<close>

theorem import_all_active_witness:
  "parseRawBlocksToState BLOCK_DEFINITIONS intNumStr 1700000000000
      [rawPlain ''b-1'' ''Background & Atmosphere'', rawPlain ''b-2'' ''Background & Atmosphere'']
     = Inr [importedPlain ''b-1'', importedPlain ''b-2'']
   \<and> singleActiveInstance (BLOCK_DEFINITIONS BACKGROUND)
   \<and> length (filter (\<lambda>b. b_type b = BACKGROUND \<and> isActive b)
               [importedPlain ''b-1'', importedPlain ''b-2'']) = 2"
  using import_all_active [OF import_two_backgrounds_eval]
  by (simp add: import_two_backgrounds_eval importedPlain_def BACKGROUND_DEFINITION_def)

section \<open>Properties of the block store, the merge and the change summary\<close>

lemma effectiveBlocks_eq:
  "effectiveBlocks defs locals globals True =
     map (\<lambda>g. (g, Some True))
       (filter (\<lambda>g. \<not> (singleActiveInstance (defs (b_type g)) \<and> (\<exists>l \<in> set locals. b_type l = b_type g)))
          globals)
     @ map (\<lambda>l. (l, None)) locals"
proof -
  have eq: "\<And>t. (t \<in> b_type ` set locals) = (\<exists>l \<in> set locals. b_type l = t)" by auto
  show ?thesis by (simp add: effectiveBlocks_def Let_def filter_map comp_def eq)
qed

lemma blocksToProcess_eq:
  "blocksToProcess defs locals True (Some globals) =
     filter (\<lambda>g. isActive g \<and>
                 \<not> (singleActiveInstance (defs (b_type g)) \<and>
                    (\<exists>l \<in> set locals. isActive l \<and> b_type l = b_type g))) globals
     @ locals"
proof -
  have eq: "\<And>t. (t \<in> b_type ` {x \<in> set locals. isActive x}) = (\<exists>l \<in> set locals. isActive l \<and> b_type l = t)"
    by auto
  have "filter (\<lambda>gb. if \<not> isActive gb then False
                    else if singleActiveInstance (defs (b_type gb)) \<and>
                            b_type gb \<in> set (map b_type (filter isActive locals))
                         then False else True) globals
        = filter (\<lambda>g. isActive g \<and>
                 \<not> (singleActiveInstance (defs (b_type g)) \<and>
                    (\<exists>l \<in> set locals. isActive l \<and> b_type l = b_type g))) globals"
    by (rule filter_cong) (auto simp: eq)
  then show ?thesis unfolding blocksToProcess_def Let_def by (cases globals) simp_all
qed

text \<open>
  Claim C3, as the code has it. With \<open>useBaseStyle\<close> set, the effective block list of
  the editor is the filtered global blocks (tagged as global) followed by the local blocks,
  and a global block is filtered out exactly when its type allows a single active instance
  and some local block has that type. The list that the prompt compiler merges for itself
  is also filtered globals followed by locals, but there a global block is filtered out
  exactly when it is inactive, or its type allows a single active instance and some active
  local block has that type. In both lists a global Background block is absent whenever an
  active local Background block exists.
\<close>

theorem effective_blocks_shadowing:
  "effectiveBlocks defs locals globals True =
     map (\<lambda>g. (g, Some True))
       (filter (\<lambda>g. \<not> (singleActiveInstance (defs (b_type g)) \<and> (\<exists>l \<in> set locals. b_type l = b_type g)))
          globals)
     @ map (\<lambda>l. (l, None)) locals
   \<and> blocksToProcess defs locals True (Some globals) =
     filter (\<lambda>g. isActive g \<and>
                 \<not> (singleActiveInstance (defs (b_type g)) \<and>
                    (\<exists>l \<in> set locals. isActive l \<and> b_type l = b_type g))) globals
     @ locals
   \<and> (\<forall>g l. l \<in> set locals \<and> isActive l \<and> b_type l = BACKGROUND \<and> b_type g = BACKGROUND \<longrightarrow>
         (g, Some True) \<notin> set (effectiveBlocks BLOCK_DEFINITIONS locals globals True) \<and>
         (g \<notin> set locals \<longrightarrow> g \<notin> set (blocksToProcess BLOCK_DEFINITIONS locals True (Some globals))))"
proof -
  have single: "singleActiveInstance (BLOCK_DEFINITIONS BACKGROUND)"
    by (simp add: BACKGROUND_DEFINITION_def)
  show ?thesis
    unfolding effectiveBlocks_eq blocksToProcess_eq using single by auto
qed

text \<open>
  A global and a local Background block, both active: the global one is in neither list.
\<close>

theorem effective_blocks_shadowing_witness:
  "effectiveBlocks BLOCK_DEFINITIONS [sampleBlock ''l1'' BACKGROUND True]
       [sampleBlock ''g1'' BACKGROUND True, sampleBlock ''g2'' STYLE True] True
     = [(sampleBlock ''g2'' STYLE True, Some True), (sampleBlock ''l1'' BACKGROUND True, None)]
   \<and> blocksToProcess BLOCK_DEFINITIONS [sampleBlock ''l1'' BACKGROUND True] True
       (Some [sampleBlock ''g1'' BACKGROUND True, sampleBlock ''g2'' STYLE True])
     = [sampleBlock ''g2'' STYLE True, sampleBlock ''l1'' BACKGROUND True]"
  using effective_blocks_shadowing [of BLOCK_DEFINITIONS "[sampleBlock ''l1'' BACKGROUND True]"
      "[sampleBlock ''g1'' BACKGROUND True, sampleBlock ''g2'' STYLE True]"]
  by (simp add: sampleBlock_def BACKGROUND_DEFINITION_def STYLE_DEFINITION_def)

text \<open>
  Claim C3 as stated fails for the list the compiler merges: an inactive local Background
  block exists, and the active global Background block is still in the list; an inactive
  global block is left out although no local block has its type.
\<close>

theorem compiler_merge_counterexample:
  "blocksToProcess BLOCK_DEFINITIONS [sampleBlock ''l1'' BACKGROUND False] True
       (Some [sampleBlock ''g1'' BACKGROUND True, sampleBlock ''g2'' SUBJECT False])
     = [sampleBlock ''g1'' BACKGROUND True, sampleBlock ''l1'' BACKGROUND False]"
  by (simp add: blocksToProcess_def sampleBlock_def BACKGROUND_DEFINITION_def SUBJECT_DEFINITION_def)

lemma natStr_samples:
  "natStr 0 = ''0''" "natStr (Suc 0) = ''1''" "natStr 2 = ''2''" "natStr 3 = ''3''"
  "natStr 1700000000000 = ''1700000000000''" "natStr 1700000000001 = ''1700000000001''"
  "natStr 1700000000002 = ''1700000000002''"
  by (simp_all add: natStr.simps)

lemma twoGlobalBackgrounds_eval:
  "twoGlobalBackgrounds =
     [\<lparr>b_id = ''b-Background & Atmosphere-1700000000000-p0z8m4c7e'', b_type = BACKGROUND,
       customLabel = Some ''Background'', isActive = False,
       sections = defaultSections BACKGROUND_DEFINITION, customValues = None, referenceImage = None\<rparr>,
      \<lparr>b_id = ''b-Background & Atmosphere-1700000000001-k3v9x2a1q'', b_type = BACKGROUND,
       customLabel = Some ''Background'', isActive = True,
       sections = defaultSections BACKGROUND_DEFINITION, customValues = None, referenceImage = None\<rparr>]"
  unfolding twoGlobalBackgrounds_def addGlobalBlock_def createDefaultBlockState_def
  by (simp add: natStr_samples Let_def)
     (simp add: BACKGROUND_DEFINITION_def)

text \<open>
  Claim C2 at the failing input. Two calls of \<open>addGlobalBlock\<close> leave two global
  Background blocks, the first inactive and the second active. Toggling the first in the
  editor activates it and leaves the second active: the global scope then holds two active
  blocks of a type that allows a single active instance.
\<close>

theorem global_toggle_two_active:
  "singleActiveInstance (BLOCK_DEFINITIONS BACKGROUND)
   \<and> map b_type twoGlobalBackgrounds = [BACKGROUND, BACKGROUND]
   \<and> map isActive twoGlobalBackgrounds = [False, True]
   \<and> map isActive
        (globalBlocks
           (toggleBlockActive BLOCK_DEFINITIONS
              \<lparr>blocks = [], globalBlocks = twoGlobalBackgrounds, selectedBlockId = None,
               toastMessage = None\<rparr>
              (hd twoGlobalBackgrounds)))
     = [True, True]"
  by (simp add: twoGlobalBackgrounds_eval toggleBlockActive_def updateGlobalBlock_def Let_def)
     (simp add: BACKGROUND_DEFINITION_def)
















section \<open>Properties of the prompt compiler\<close>





























section \<open>The single-active-instance rule in the local scope\<close>

lemma singleActiveOK_iff:
  "singleActiveOK defs bs \<longleftrightarrow>
     (\<forall>t. singleActiveInstance (defs t) \<longrightarrow> length (filter (\<lambda>b. b_type b = t \<and> isActive b) bs) \<le> 1)"
proof -
  have "t \<in> set allBlockTypes" for t by (cases t) (simp_all add: allBlockTypes_def)
  then show ?thesis by (auto simp: singleActiveOK_def list_all_iff)
qed

lemma filter_map_le:
  "(\<And>x. x \<in> set xs \<Longrightarrow> P (f x) \<Longrightarrow> Q x) \<Longrightarrow> length (filter P (map f xs)) \<le> length (filter Q xs)"
  by (induction xs) auto

lemma filter_key_le_1:
  "distinct (map k xs) \<Longrightarrow> length (filter (\<lambda>x. k x = i) xs) \<le> Suc 0"
proof (induction xs)
  case Nil then show ?case by simp
next
  case (Cons x xs)
  show ?case
  proof (cases "k x = i")
    case True
    have "k x \<notin> k ` set xs" using Cons.prems by simp
    then have "\<And>y. y \<in> set xs \<Longrightarrow> k y \<noteq> k x" by (metis imageI)
    then have "filter (\<lambda>y. k y = i) xs = []" using True by (simp add: filter_empty_conv)
    then show ?thesis using True by simp
  next
    case False
    then show ?thesis using Cons by simp
  qed
qed

lemma distinct_key_unique:
  "distinct (map k xs) \<Longrightarrow> x \<in> set xs \<Longrightarrow> y \<in> set xs \<Longrightarrow> k x = k y \<Longrightarrow> x = y"
  by (meson distinct_map inj_onD)

lemma insertNewBlock_blocks:
  "blocks (insertNewBlock st nb single) =
     (if single then map (\<lambda>b. if b_type b = b_type nb \<and> isActive b then b\<lparr>isActive := False\<rparr> else b) (blocks st)
      else blocks st) @ [nb]"
  by (simp add: insertNewBlock_def Let_def)

lemma insertNewBlock_ok:
  assumes ok: "singleActiveOK defs (blocks st)"
    and single: "single = singleActiveInstance (defs (b_type nb))"
  shows "singleActiveOK defs (blocks (insertNewBlock st nb single))"
  unfolding singleActiveOK_iff
proof (intro allI impI)
  fix t assume t: "singleActiveInstance (defs t)"
  let ?P = "\<lambda>b. b_type b = t \<and> isActive b"
  let ?f = "\<lambda>b. if b_type b = b_type nb \<and> isActive b then b\<lparr>isActive := False\<rparr> else b"
  have before: "length (filter ?P (blocks st)) \<le> 1" using ok t by (simp add: singleActiveOK_iff)
  show "length (filter ?P (blocks (insertNewBlock st nb single))) \<le> 1"
  proof (cases "t = b_type nb")
    case True
    then have s: "single" using t single by simp
    have "length (filter ?P (map ?f (blocks st))) \<le> length (filter (\<lambda>b. False) (blocks st))"
      by (rule filter_map_le) (auto simp: True split: if_splits)
    then show ?thesis using s by (simp add: insertNewBlock_blocks)
  next
    case False
    have "length (filter ?P (map ?f (blocks st))) \<le> length (filter ?P (blocks st))"
      by (rule filter_map_le) (auto split: if_splits)
    then show ?thesis using False before by (simp add: insertNewBlock_blocks)
  qed
qed

lemma insertNewBlock_ids:
  "map b_id (blocks (insertNewBlock st nb single)) = map b_id (blocks st) @ [b_id nb]"
  by (simp add: insertNewBlock_blocks comp_def)

lemma addBlock_ok:
  assumes "singleActiveOK defs (blocks st)"
  shows "singleActiveOK defs (blocks (addBlock defs now st ty))"
  unfolding addBlock_def Let_def by (rule insertNewBlock_ok[OF assms]) simp

lemma addBlock_ids:
  "map b_id (blocks (addBlock defs now st ty)) = map b_id (blocks st) @ [''block-'' @ natStr now]"
  by (simp add: addBlock_def Let_def insertNewBlock_ids)

lemma spliceIn_filter_length:
  "length (filter P (spliceIn i x xs)) = length (filter P xs) + (if P x then 1 else 0)"
proof -
  have "length (filter P xs) = length (filter P (take i xs)) + length (filter P (drop i xs))"
    by (metis append_take_drop_id filter_append length_append)
  then show ?thesis by (simp add: spliceIn_def)
qed

lemma spliceIn_distinct:
  assumes d: "distinct (map k xs)" and n: "k x \<notin> set (map k xs)"
  shows "distinct (map k (spliceIn i x xs))"
proof -
  have e: "map k xs = map k (take i xs) @ map k (drop i xs)"
    by (metis append_take_drop_id map_append)
  have dd: "distinct (map k (take i xs) @ map k (drop i xs))" using d e by simp
  have n1: "k x \<notin> set (map k (take i xs))" using n by (auto dest: in_set_takeD)
  have n2: "k x \<notin> set (map k (drop i xs))" using n by (auto dest: in_set_dropD)
  show ?thesis using dd n1 n2 by (auto simp: spliceIn_def)
qed

lemma deepCopyBlock_type: "b_type (deepCopyBlock b) = b_type b"
  by (simp add: deepCopyBlock_def)

lemma duplicateBlock_ok:
  assumes ok: "singleActiveOK defs (blocks st)"
  shows "singleActiveOK defs (blocks (duplicateBlock defs now st block))"
proof (cases "\<exists>gb \<in> set (globalBlocks st). b_id gb = b_id block")
  case True
  then show ?thesis using ok by (simp add: duplicateBlock_def)
next
  case False
  let ?nb = "(deepCopyBlock block)
              \<lparr>b_id := ''block-'' @ natStr now,
               customLabel := Some (d_label (defs (b_type block)) @ '' '' @
                  natStr (length (filter (\<lambda>b. b_type b = b_type block) (blocks st)) + 1)),
               isActive := (if singleActiveInstance (defs (b_type block)) then False else isActive block)\<rparr>"
  have bl: "blocks (duplicateBlock defs now st block) =
              spliceIn (nat (findIndex (\<lambda>b. b_id b = b_id block) (blocks st) + 1)) ?nb (blocks st)"
    using False by (simp add: duplicateBlock_def Let_def)
  show ?thesis
    unfolding singleActiveOK_iff
  proof (intro allI impI)
    fix t assume t: "singleActiveInstance (defs t)"
    have before: "length (filter (\<lambda>b. b_type b = t \<and> isActive b) (blocks st)) \<le> 1"
      using ok t by (simp add: singleActiveOK_iff)
    have nP: "(if b_type ?nb = t \<and> isActive ?nb then 1 else 0) = (0::nat)"
      using t by (auto simp: deepCopyBlock_type)
    show "length (filter (\<lambda>b. b_type b = t \<and> isActive b) (blocks (duplicateBlock defs now st block))) \<le> 1"
      unfolding bl spliceIn_filter_length nP using before by simp
  qed
qed

lemma duplicateBlock_ids:
  assumes "distinct (map b_id (blocks st))" "''block-'' @ natStr now \<notin> set (map b_id (blocks st))"
  shows "distinct (map b_id (blocks (duplicateBlock defs now st block)))"
proof (cases "\<exists>gb \<in> set (globalBlocks st). b_id gb = b_id block")
  case True
  then show ?thesis using assms by (simp add: duplicateBlock_def)
next
  case False
  let ?nb = "(deepCopyBlock block)
              \<lparr>b_id := ''block-'' @ natStr now,
               customLabel := Some (d_label (defs (b_type block)) @ '' '' @
                  natStr (length (filter (\<lambda>b. b_type b = b_type block) (blocks st)) + 1)),
               isActive := (if singleActiveInstance (defs (b_type block)) then False else isActive block)\<rparr>"
  have bl: "blocks (duplicateBlock defs now st block) =
              spliceIn (nat (findIndex (\<lambda>b. b_id b = b_id block) (blocks st) + 1)) ?nb (blocks st)"
    using False by (simp add: duplicateBlock_def Let_def)
  show ?thesis
    unfolding bl by (rule spliceIn_distinct) (use assms in simp_all)
qed

lemma toggle_local_blocks:
  assumes "\<not> (\<exists>gb \<in> set (globalBlocks st). b_id gb = b_id block)"
  shows "blocks (toggleBlockActive defs st block) =
     map (\<lambda>b. if b_id b = b_id block then b\<lparr>isActive := \<not> isActive block\<rparr> else b)
       (if \<not> isActive block \<and> singleActiveInstance (defs (b_type block))
        then map (\<lambda>b. if b_type b = b_type block \<and> b_id b \<noteq> b_id block \<and> isActive b
                        then b\<lparr>isActive := False\<rparr> else b) (blocks st)
        else blocks st)"
  using assms by (simp add: toggleBlockActive_def Let_def)

lemma toggle_ids: "map b_id (blocks (toggleBlockActive defs st block)) = map b_id (blocks st)"
proof (cases "\<exists>gb \<in> set (globalBlocks st). b_id gb = b_id block")
  case True
  then show ?thesis by (simp add: toggleBlockActive_def Let_def)
next
  case False
  have 1: "map b_id (map (\<lambda>b. if P b then b\<lparr>isActive := v b\<rparr> else b) xs) = map b_id xs"
    for P v and xs :: "BlockState list"
    by (induction xs) auto
  show ?thesis unfolding toggle_local_blocks[OF False] by (simp add: 1)
qed

lemma toggleBlockActive_ok:
  assumes ok: "singleActiveOK defs (blocks st)"
    and d: "distinct (map b_id (blocks st))"
    and valid: "block \<in> set (blocks st) \<or> (\<exists>gb \<in> set (globalBlocks st). b_id gb = b_id block)"
  shows "singleActiveOK defs (blocks (toggleBlockActive defs st block))"
proof (cases "\<exists>gb \<in> set (globalBlocks st). b_id gb = b_id block")
  case True
  then show ?thesis using ok by (simp add: toggleBlockActive_def Let_def)
next
  case False
  then have mem: "block \<in> set (blocks st)" using valid by blast
  have uniq: "\<And>b. b \<in> set (blocks st) \<Longrightarrow> b_id b = b_id block \<Longrightarrow> b = block"
    using distinct_key_unique[OF d _ mem] by blast
  let ?g = "\<lambda>b. if b_id b = b_id block then b\<lparr>isActive := \<not> isActive block\<rparr> else b"
  let ?h = "\<lambda>b. if b_type b = b_type block \<and> b_id b \<noteq> b_id block \<and> isActive b
                        then b\<lparr>isActive := False\<rparr> else b"
  show ?thesis
    unfolding singleActiveOK_iff
  proof (intro allI impI)
    fix t assume t: "singleActiveInstance (defs t)"
    let ?P = "\<lambda>b. b_type b = t \<and> isActive b"
    have before: "length (filter ?P (blocks st)) \<le> 1" using ok t by (simp add: singleActiveOK_iff)
    show "length (filter ?P (blocks (toggleBlockActive defs st block))) \<le> 1"
    proof (cases "\<not> isActive block \<and> singleActiveInstance (defs (b_type block))")
      case on: True
      have c: "(\<not> isActive block \<and> singleActiveInstance (defs (b_type block))) = True"
        using on by simp
      have bl: "blocks (toggleBlockActive defs st block) = map (?g \<circ> ?h) (blocks st)"
        unfolding toggle_local_blocks[OF False] c by simp
      show ?thesis
      proof (cases "t = b_type block")
        case True
        have "length (filter ?P (map (?g \<circ> ?h) (blocks st)))
                \<le> length (filter (\<lambda>b. b_id b = b_id block) (blocks st))"
          by (rule filter_map_le) (auto simp: True split: if_splits)
        also have "\<dots> \<le> Suc 0" by (rule filter_key_le_1[OF d])
        finally show ?thesis by (simp add: bl)
      next
        case False
        have "length (filter ?P (map (?g \<circ> ?h) (blocks st))) \<le> length (filter ?P (blocks st))"
        proof (rule filter_map_le)
          fix x assume x: "x \<in> set (blocks st)" and p: "?P ((?g \<circ> ?h) x)"
          show "?P x"
          proof (cases "b_id x = b_id block")
            case True
            then have "x = block" using uniq x by simp
            then show ?thesis using p False by (auto split: if_splits)
          next
            case ne: False
            then show ?thesis using p by (auto split: if_splits)
          qed
        qed
        then show ?thesis using before by (simp add: bl)
      qed
    next
      case off: False
      have c: "(\<not> isActive block \<and> singleActiveInstance (defs (b_type block))) = False"
        using off by simp
      have bl: "blocks (toggleBlockActive defs st block) = map ?g (blocks st)"
        unfolding toggle_local_blocks[OF False] c by simp
      have "length (filter ?P (map ?g (blocks st))) \<le> length (filter ?P (blocks st))"
      proof (rule filter_map_le)
        fix x assume x: "x \<in> set (blocks st)" and p: "?P (?g x)"
        show "?P x"
        proof (cases "b_id x = b_id block")
          case True
          then have xb: "x = block" using uniq x by simp
          have "isActive block" using p True xb t off by (auto split: if_splits)
          then show ?thesis using p True by (auto split: if_splits)
        next
          case ne: False
          then show ?thesis using p by (auto split: if_splits)
        qed
      qed
      then show ?thesis using before by (simp add: bl)
    qed
  qed
qed

text \<open>
  The local scope keeps the rule of claim C2: from a state whose local blocks have distinct
  ids and obey the single-active-instance rule, every run of add, duplicate and toggle
  operations (each new id fresh, each argument a displayed block) leads to such a state.
\<close>

lemma local_scope_single_active:
  assumes "distinct (map b_id (blocks st))" and "singleActiveOK defs (blocks st)"
    and "validRun defs st ops"
  shows "distinct (map b_id (blocks (runOps defs st ops))) \<and>
         singleActiveOK defs (blocks (runOps defs st ops))"
  using assms
proof (induction ops arbitrary: st)
  case Nil
  then show ?case by simp
next
  case (Cons op ops)
  have v: "opValid st op" and vr: "validRun defs (applyOp defs st op) ops"
    using Cons.prems(3) by simp_all
  have "distinct (map b_id (blocks (applyOp defs st op))) \<and>
        singleActiveOK defs (blocks (applyOp defs st op))"
  proof (cases op)
    case (OpAdd now ty)
    then show ?thesis using Cons.prems(1,2) v by (simp add: addBlock_ok addBlock_ids)
  next
    case (OpDuplicate now block)
    then show ?thesis using Cons.prems(1,2) v by (simp add: duplicateBlock_ok duplicateBlock_ids)
  next
    case (OpToggle block)
    then show ?thesis using Cons.prems(1,2) v by (simp add: toggleBlockActive_ok toggle_ids)
  qed
  then show ?case using Cons.IH[OF _ _ vr] by simp
qed

end

